theory Spec2Isabelle
  imports Complex_Main
begin

section \<open>Values and failures\<close>

text \<open>
  The artifacts of the generator and the answers of the gateway are parsed JSON: what
  Python's \<^verbatim>\<open>json.load\<close> returns. An object is kept as the list of its members; it is read
  with \<open>map_of\<close>, so the first binding of a key is the dictionary's. A float is a
  rational number (NaN and the infinities are left out). A Python \<^verbatim>\<open>str\<close> is a
  \<open>string\<close>, one \<open>char\<close> for each character.
\<close>

datatype json =
    JNull
  | JBool bool
  | JInt int
  | JFloat rat
  | JStr string
  | JList "json list"
  | JObj "(string \<times> json) list"

text \<open>
  Every exception the modelled code can raise is a value. \<open>GatewayError\<close> is whatever
  \<^verbatim>\<open>LLMClient.generate_json\<close> raised, tagged by its origin.
\<close>

datatype exn =
    TypeError
  | AttributeError
  | KeyError
  | IndexError
  | JSONDecodeError
  | ValidationError
  | GatewayError string

text \<open>Sequencing: the first exception ends the computation.\<close>

definition andthen :: "exn + 'a \<Rightarrow> ('a \<Rightarrow> exn + 'b) \<Rightarrow> exn + 'b" where
  "andthen m f = (case m of Inl e \<Rightarrow> Inl e | Inr x \<Rightarrow> f x)"

text \<open>
  A \<^verbatim>\<open>for i, x in enumerate(xs)\<close> loop over a state, starting at index \<open>i\<close>; an
  exception in the body leaves the loop.
\<close>

fun for_enumerate :: "(nat \<Rightarrow> 'a \<Rightarrow> 's \<Rightarrow> exn + 's) \<Rightarrow> nat \<Rightarrow> 'a list \<Rightarrow> 's \<Rightarrow> exn + 's" where
  "for_enumerate body i [] s = Inr s"
| "for_enumerate body i (x # xs) s =
     (case body i x s of Inl e \<Rightarrow> Inl e | Inr s' \<Rightarrow> for_enumerate body (Suc i) xs s')"

subsection \<open>Python's operations on these values\<close>

text \<open>Truth value of a value in a condition (\<^verbatim>\<open>if x:\<close>, \<^verbatim>\<open>not x\<close>).\<close>

fun truthy :: "json \<Rightarrow> bool" where
  "truthy JNull = False"
| "truthy (JBool b) = b"
| "truthy (JInt n) = (n \<noteq> 0)"
| "truthy (JFloat r) = (r \<noteq> 0)"
| "truthy (JStr s) = (s \<noteq> [])"
| "truthy (JList xs) = (xs \<noteq> [])"
| "truthy (JObj kvs) = (kvs \<noteq> [])"

text \<open>
  \<^verbatim>\<open>==\<close> where one side is \<^verbatim>\<open>None\<close>, a bool, a number or a string, the only way the
  modelled code uses it: numbers compare by value (\<^verbatim>\<open>True == 1 == 1.0\<close>), everything
  else is equal only to itself.
\<close>

fun num_of :: "json \<Rightarrow> rat option" where
  "num_of (JBool b) = Some (if b then 1 else 0)"
| "num_of (JInt n) = Some (of_int n)"
| "num_of (JFloat r) = Some r"
| "num_of _ = None"

definition py_eq :: "json \<Rightarrow> json \<Rightarrow> bool" where
  "py_eq a b =
     (case (num_of a, num_of b) of
        (Some x, Some y) \<Rightarrow> x = y
      | (None, None) \<Rightarrow> a = b
      | _ \<Rightarrow> False)"

text \<open>\<^verbatim>\<open>d.get(k)\<close> and \<^verbatim>\<open>d.get(k, default)\<close> on a dictionary.\<close>

definition dict_get :: "(string \<times> json) list \<Rightarrow> string \<Rightarrow> json" where
  "dict_get d k = (case map_of d k of None \<Rightarrow> JNull | Some v \<Rightarrow> v)"

definition dict_get_default :: "(string \<times> json) list \<Rightarrow> string \<Rightarrow> json \<Rightarrow> json" where
  "dict_get_default d k dflt = (case map_of d k of None \<Rightarrow> dflt | Some v \<Rightarrow> v)"

text \<open>\<^verbatim>\<open>d[k] = v\<close>: an existing key keeps its place, a new key goes last.\<close>

fun dict_set :: "string \<Rightarrow> json \<Rightarrow> (string \<times> json) list \<Rightarrow> (string \<times> json) list" where
  "dict_set k v [] = [(k, v)]"
| "dict_set k v ((k', v') # d) = (if k' = k then (k, v) # d else (k', v') # dict_set k v d)"

text \<open>
  \<^verbatim>\<open>len(x)\<close> and iteration over \<open>x\<close>: a list gives its items, a string its characters, a
  dictionary its keys; anything else raises \<^verbatim>\<open>TypeError\<close>.
\<close>

fun py_len :: "json \<Rightarrow> exn + nat" where
  "py_len (JList xs) = Inr (length xs)"
| "py_len (JStr s) = Inr (length s)"
| "py_len (JObj kvs) = Inr (length (remdups (map fst kvs)))"
| "py_len _ = Inl TypeError"

fun py_iter :: "json \<Rightarrow> exn + json list" where
  "py_iter (JList xs) = Inr xs"
| "py_iter (JStr s) = Inr (map (\<lambda>c. JStr [c]) s)"
| "py_iter (JObj kvs) = Inr (map JStr (remdups (map fst kvs)))"
| "py_iter _ = Inl TypeError"

text \<open>
  \<^verbatim>\<open>x[0]\<close> and \<^verbatim>\<open>x[-1]\<close>: an item of a list, a character of a string; a dictionary read
  from JSON has no integer key; other values cannot be subscripted.
\<close>

fun py_first :: "json \<Rightarrow> exn + json" where
  "py_first (JList xs) = (if xs = [] then Inl IndexError else Inr (hd xs))"
| "py_first (JStr s) = (if s = [] then Inl IndexError else Inr (JStr [hd s]))"
| "py_first (JObj kvs) = Inl KeyError"
| "py_first _ = Inl TypeError"

fun py_last :: "json \<Rightarrow> exn + json" where
  "py_last (JList xs) = (if xs = [] then Inl IndexError else Inr (last xs))"
| "py_last (JStr s) = (if s = [] then Inl IndexError else Inr (JStr [last s]))"
| "py_last (JObj kvs) = Inl KeyError"
| "py_last _ = Inl TypeError"

text \<open>\<^verbatim>\<open>x.get(k)\<close> on any value: only a dictionary has the method.\<close>

fun py_get :: "json \<Rightarrow> string \<Rightarrow> exn + json" where
  "py_get (JObj d) k = Inr (dict_get d k)"
| "py_get _ k = Inl AttributeError"

text \<open>A \<^verbatim>\<open>set\<close> of strings, kept in the order of insertion.\<close>

definition set_add :: "'a \<Rightarrow> 'a list \<Rightarrow> 'a list" where
  "set_add x xs = (if x \<in> set xs then xs else xs @ [x])"

text \<open>\<^verbatim>\<open>d[k] = d.get(k, 0) + 1\<close> on a dictionary of counters, in insertion order.\<close>

fun dict_incr :: "string \<Rightarrow> (string \<times> int) list \<Rightarrow> (string \<times> int) list" where
  "dict_incr k [] = [(k, 1)]"
| "dict_incr k ((k', n) # d) = (if k' = k then (k, n + 1) # d else (k', n) # dict_incr k d)"

subsection \<open>Strings\<close>

text \<open>
  The characters \<^verbatim>\<open>str.strip()\<close> removes, among the 256 that \<open>char\<close> has: the ASCII
  white space, the separators 0x1C to 0x1F, NEL and the no-break space.
\<close>

definition is_space :: "char \<Rightarrow> bool" where
  "is_space c =
     (let n = (of_char c :: nat)
      in (9 \<le> n \<and> n \<le> 13) \<or> (28 \<le> n \<and> n \<le> 32) \<or> n = 133 \<or> n = 160)"

definition strip :: "string \<Rightarrow> string" where
  "strip s = rev (dropWhile is_space (rev (dropWhile is_space s)))"

text \<open>\<^verbatim>\<open>s.rstrip(c)\<close> for one character \<open>c\<close>.\<close>

definition rstrip_char :: "char \<Rightarrow> string \<Rightarrow> string" where
  "rstrip_char c s = rev (dropWhile (\<lambda>x. x = c) (rev s))"

text \<open>\<^verbatim>\<open>sep.join(xs)\<close>.\<close>

fun join :: "string \<Rightarrow> string list \<Rightarrow> string" where
  "join sep [] = []"
| "join sep [x] = x"
| "join sep (x # y # xs) = x @ sep @ join sep (y # xs)"

text \<open>\<^verbatim>\<open>needle in hay\<close> on strings.\<close>

fun starts_with :: "string \<Rightarrow> string \<Rightarrow> bool" where
  "starts_with s [] = True"
| "starts_with [] (c # p) = False"
| "starts_with (d # s) (c # p) = (d = c \<and> starts_with s p)"

fun contains :: "string \<Rightarrow> string \<Rightarrow> bool" where
  "contains [] needle = (needle = [])"
| "contains (c # hay) needle = (starts_with (c # hay) needle \<or> contains hay needle)"

text \<open>
  \<^verbatim>\<open>xs[a:b]\<close>: a negative bound counts from the end, and both bounds are cut to the
  list.
\<close>

definition slice_bound :: "nat \<Rightarrow> int \<Rightarrow> nat" where
  "slice_bound n i = (if i < 0 then nat (max 0 (int n + i)) else min n (nat i))"

definition py_slice :: "'a list \<Rightarrow> int \<Rightarrow> int \<Rightarrow> 'a list" where
  "py_slice xs a b = drop (slice_bound (length xs) a) (take (slice_bound (length xs) b) xs)"

text \<open>\<^verbatim>\<open>os.path.join(a, b)\<close> for a relative \<open>b\<close>.\<close>

definition path_join :: "string \<Rightarrow> string \<Rightarrow> string" where
  "path_join a b =
     (if a = [] then b else if last a = CHR ''/'' then a @ b else a @ ''/'' @ b)"

section \<open>models.py: the data contract\<close>

text \<open>
  The pydantic models are records, and the construction \<^verbatim>\<open>M(**d)\<close> is a function from
  the keyword dictionary \<open>d\<close> to a record or to nothing, when pydantic raises
  \<^verbatim>\<open>ValidationError\<close>. Unknown keys are ignored (the models keep pydantic's default).
  A \<^verbatim>\<open>str\<close> field takes a string only, a \<^verbatim>\<open>Literal\<close> field one of its strings, a
  \<^verbatim>\<open>list\<close> field a list, a \<^verbatim>\<open>dict\<close> field or a nested model a dictionary, and a
  \<open>pattern\<close> \<^verbatim>\<open>^p\<close> asks for the prefix \<open>p\<close>. An \<^verbatim>\<open>int\<close> field takes an int and a
  \<^verbatim>\<open>float\<close> field an int or a float; which other values pydantic converts to a number
  (a bool, a numeric string, a float without fraction) is the library's business and a
  parameter here.
\<close>

record coercion =
  lax_int :: "json \<Rightarrow> int option"
  lax_float :: "json \<Rightarrow> rat option"

definition int_field :: "coercion \<Rightarrow> (string \<times> json) list \<Rightarrow> string \<Rightarrow> int option" where
  "int_field C d k =
     (case map_of d k of
        None \<Rightarrow> None
      | Some (JInt n) \<Rightarrow> Some n
      | Some v \<Rightarrow> lax_int C v)"

definition float_field :: "coercion \<Rightarrow> (string \<times> json) list \<Rightarrow> string \<Rightarrow> rat option" where
  "float_field C d k =
     (case map_of d k of
        None \<Rightarrow> None
      | Some (JInt n) \<Rightarrow> Some (of_int n)
      | Some (JFloat r) \<Rightarrow> Some r
      | Some v \<Rightarrow> lax_float C v)"

definition str_field :: "(string \<times> json) list \<Rightarrow> string \<Rightarrow> string option" where
  "str_field d k = (case map_of d k of Some (JStr s) \<Rightarrow> Some s | _ \<Rightarrow> None)"

definition pattern_field :: "string \<Rightarrow> (string \<times> json) list \<Rightarrow> string \<Rightarrow> string option" where
  "pattern_field p d k =
     (case str_field d k of
        Some s \<Rightarrow> if starts_with s p then Some s else None
      | None \<Rightarrow> None)"

definition literal_field :: "string list \<Rightarrow> (string \<times> json) list \<Rightarrow> string \<Rightarrow> string option" where
  "literal_field allowed d k =
     (case str_field d k of
        Some s \<Rightarrow> if s \<in> set allowed then Some s else None
      | None \<Rightarrow> None)"

definition dict_field :: "(string \<times> json) list \<Rightarrow> string \<Rightarrow> (string \<times> json) list option" where
  "dict_field d k = (case map_of d k of Some (JObj kvs) \<Rightarrow> Some kvs | _ \<Rightarrow> None)"

fun as_str :: "json \<Rightarrow> string option" where
  "as_str (JStr s) = Some s"
| "as_str _ = None"

definition str_list_field :: "(string \<times> json) list \<Rightarrow> string \<Rightarrow> string list option" where
  "str_list_field d k =
     (case map_of d k of Some (JList xs) \<Rightarrow> those (map as_str xs) | _ \<Rightarrow> None)"

definition case_types :: "string list" where
  "case_types = [''support_bot'', ''operator_quality'']"

record Evidence =
  input_file :: string
  line_start :: int
  line_end :: int
  quote :: string

definition Evidence_of :: "coercion \<Rightarrow> (string \<times> json) list \<Rightarrow> Evidence option" where
  "Evidence_of C d =
     (case (str_field d ''input_file'', int_field C d ''line_start'',
            int_field C d ''line_end'', str_field d ''quote'') of
        (Some f, Some ls, Some le, Some q) \<Rightarrow>
          Some \<lparr>input_file = f, line_start = ls, line_end = le, quote = q\<rparr>
      | _ \<Rightarrow> None)"

fun Evidence_item :: "coercion \<Rightarrow> json \<Rightarrow> Evidence option" where
  "Evidence_item C (JObj d) = Evidence_of C d"
| "Evidence_item C _ = None"

text \<open>\<^verbatim>\<open>evidence: list[Evidence] = Field(min_length=1)\<close>.\<close>

definition evidence_field :: "coercion \<Rightarrow> (string \<times> json) list \<Rightarrow> Evidence list option" where
  "evidence_field C d =
     (case map_of d ''evidence'' of
        Some (JList xs) \<Rightarrow>
          (case those (map (Evidence_item C) xs) of
             Some es \<Rightarrow> if 1 \<le> length es then Some es else None
           | None \<Rightarrow> None)
      | _ \<Rightarrow> None)"

record UseCase =
  uc_id :: string
  uc_case :: string
  uc_name :: string
  uc_description :: string
  uc_evidence :: "Evidence list"

definition UseCase_of :: "coercion \<Rightarrow> (string \<times> json) list \<Rightarrow> UseCase option" where
  "UseCase_of C d =
     (case (pattern_field ''uc_'' d ''id'', literal_field case_types d ''case'',
            str_field d ''name'', str_field d ''description'', evidence_field C d) of
        (Some i, Some c, Some n, Some ds, Some es) \<Rightarrow>
          Some \<lparr>uc_id = i, uc_case = c, uc_name = n, uc_description = ds, uc_evidence = es\<rparr>
      | _ \<Rightarrow> None)"

definition policy_types_allowed :: "string list" where
  "policy_types_allowed = [''must'', ''must_not'', ''escalate'', ''style'', ''format'']"

record Policy =
  pol_id :: string
  pol_type :: string
  pol_case :: string
  pol_statement :: string
  pol_evidence :: "Evidence list"

definition Policy_of :: "coercion \<Rightarrow> (string \<times> json) list \<Rightarrow> Policy option" where
  "Policy_of C d =
     (case (pattern_field ''pol_'' d ''id'', literal_field policy_types_allowed d ''type'',
            literal_field case_types d ''case'', str_field d ''statement'',
            evidence_field C d) of
        (Some i, Some t, Some c, Some s, Some es) \<Rightarrow>
          Some \<lparr>pol_id = i, pol_type = t, pol_case = c, pol_statement = s, pol_evidence = es\<rparr>
      | _ \<Rightarrow> None)"

record TestCase =
  tc_id :: string
  tc_case :: string
  tc_use_case_id :: string
  tc_parameters :: "(string \<times> json) list"
  tc_policy_ids :: "string list"

definition TestCase_of :: "(string \<times> json) list \<Rightarrow> TestCase option" where
  "TestCase_of d =
     (case (pattern_field ''tc_'' d ''id'', literal_field case_types d ''case'',
            pattern_field ''uc_'' d ''use_case_id'', dict_field d ''parameters'',
            str_list_field d ''policy_ids'') of
        (Some i, Some c, Some u, Some ps, Some pids) \<Rightarrow>
          Some \<lparr>tc_id = i, tc_case = c, tc_use_case_id = u, tc_parameters = ps,
                tc_policy_ids = pids\<rparr>
      | _ \<Rightarrow> None)"

definition formats_allowed :: "string list" where
  "formats_allowed =
     [''single_turn_qa'', ''single_utterance_correction'', ''dialog_last_turn_correction'']"

record DatasetExample =
  ex_id :: string
  ex_case :: string
  ex_format :: string
  ex_use_case_id :: string
  ex_test_case_id :: string
  ex_input :: "(string \<times> json) list"
  ex_expected_output :: string
  ex_evaluation_criteria :: "string list"
  ex_policy_ids :: "string list"
  ex_metadata :: "(string \<times> json) list"

text \<open>
  \<^verbatim>\<open>evaluation_criteria\<close> has \<^verbatim>\<open>min_length=3\<close>; \<^verbatim>\<open>metadata\<close> defaults to the empty
  dictionary.
\<close>

definition criteria_field :: "(string \<times> json) list \<Rightarrow> string list option" where
  "criteria_field d =
     (case str_list_field d ''evaluation_criteria'' of
        Some cs \<Rightarrow> if 3 \<le> length cs then Some cs else None
      | None \<Rightarrow> None)"

definition metadata_field :: "(string \<times> json) list \<Rightarrow> (string \<times> json) list option" where
  "metadata_field d =
     (case map_of d ''metadata'' of
        None \<Rightarrow> Some []
      | Some (JObj kvs) \<Rightarrow> Some kvs
      | Some _ \<Rightarrow> None)"

definition DatasetExample_of :: "(string \<times> json) list \<Rightarrow> DatasetExample option" where
  "DatasetExample_of d =
     (case (pattern_field ''ex_'' d ''id'', literal_field case_types d ''case'',
            literal_field formats_allowed d ''format'',
            pattern_field ''uc_'' d ''use_case_id'', pattern_field ''tc_'' d ''test_case_id'') of
        (Some i, Some c, Some f, Some u, Some t) \<Rightarrow>
          (case (dict_field d ''input'', str_field d ''expected_output'', criteria_field d,
                 str_list_field d ''policy_ids'', metadata_field d) of
             (Some inp, Some out, Some cs, Some pids, Some md) \<Rightarrow>
               Some \<lparr>ex_id = i, ex_case = c, ex_format = f, ex_use_case_id = u,
                     ex_test_case_id = t, ex_input = inp, ex_expected_output = out,
                     ex_evaluation_criteria = cs, ex_policy_ids = pids, ex_metadata = md\<rparr>
           | _ \<Rightarrow> None)
      | _ \<Rightarrow> None)"

text \<open>\<^verbatim>\<open>ex.model_dump()\<close>.\<close>

definition DatasetExample_dump :: "DatasetExample \<Rightarrow> json" where
  "DatasetExample_dump ex =
     JObj [(''id'', JStr (ex_id ex)), (''case'', JStr (ex_case ex)),
           (''format'', JStr (ex_format ex)), (''use_case_id'', JStr (ex_use_case_id ex)),
           (''test_case_id'', JStr (ex_test_case_id ex)), (''input'', JObj (ex_input ex)),
           (''expected_output'', JStr (ex_expected_output ex)),
           (''evaluation_criteria'', JList (map JStr (ex_evaluation_criteria ex))),
           (''policy_ids'', JList (map JStr (ex_policy_ids ex))),
           (''metadata'', JObj (ex_metadata ex))]"

record LLMInfo =
  provider :: string
  model :: string
  temperature :: rat

definition LLMInfo_of :: "coercion \<Rightarrow> (string \<times> json) list \<Rightarrow> LLMInfo option" where
  "LLMInfo_of C d =
     (case (str_field d ''provider'', str_field d ''model'', float_field C d ''temperature'') of
        (Some p, Some m, Some t) \<Rightarrow> Some \<lparr>provider = p, model = m, temperature = t\<rparr>
      | _ \<Rightarrow> None)"

record RunManifest =
  rm_input_path :: string
  rm_out_path :: string
  seed :: int
  timestamp :: string
  generator_version :: string
  llm :: LLMInfo

definition RunManifest_of :: "coercion \<Rightarrow> (string \<times> json) list \<Rightarrow> RunManifest option" where
  "RunManifest_of C d =
     (case (str_field d ''input_path'', str_field d ''out_path'', int_field C d ''seed'',
            str_field d ''timestamp'', str_field d ''generator_version'',
            (case dict_field d ''llm'' of Some l \<Rightarrow> LLMInfo_of C l | None \<Rightarrow> None)) of
        (Some i, Some out, Some s, Some t, Some v, Some l) \<Rightarrow>
          Some \<lparr>rm_input_path = i, rm_out_path = out, seed = s, timestamp = t,
                generator_version = v, llm = l\<rparr>
      | _ \<Rightarrow> None)"

text \<open>
  \<^verbatim>\<open>M(**x)\<close> for a value \<open>x\<close> read from a file or a gateway answer: unpacking anything
  but a dictionary raises \<^verbatim>\<open>TypeError\<close> before pydantic is reached.
\<close>

definition construct :: "((string \<times> json) list \<Rightarrow> 'a option) \<Rightarrow> json \<Rightarrow> exn + 'a" where
  "construct M x =
     (case x of
        JObj d \<Rightarrow> (case M d of None \<Rightarrow> Inl ValidationError | Some v \<Rightarrow> Inr v)
      | _ \<Rightarrow> Inl TypeError)"

section \<open>validator.py\<close>

subsection \<open>The report\<close>

text \<open>
  A message of the report is one of the format strings of \<^verbatim>\<open>validate\<close> with the values
  it interpolates: the name of the file or of the list (\<open>use_cases\<close>, \<open>dataset\<close>), the index
  of the record, the offending value. The text of a pydantic error is not kept.
\<close>

datatype message =
    MissingRequiredFile string
  | ManifestInvalid
  | BareArray string string
  | BadWrapper string string
  | MinUseCases nat
  | MinPolicies nat
  | MinPolicyTypes "string list"
  | RecordInvalid string nat
  | UseCaseIdNotFound string nat string
  | TestCaseIdNotFound nat string
  | PolicyIdNotFound string nat string
  | NoPolicyId string nat
  | TooFewTestCases string int
  | MessagesEmpty nat
  | SingleNotOneMessage nat nat
  | SingleRoleNotOperator nat
  | SingleTargetMissing nat
  | SingleTargetNotZero nat
  | DialogTooFewMessages nat
  | DialogLastRoleNotOperator nat
  | DialogTargetMissing nat
  | DialogTargetWrong nat json int
  | SupportSourceMissing nat
  | TestCaseNoExamples string
  | SupportMissingSources "string list"
  | OperatorMissingFormats "string list"
  | EvidenceOutOfBounds string nat int int nat
  | EvidenceQuoteMismatch string nat int int

record ValidationReport =
  errors :: "message list"
  warnings :: "message list"
  stats :: "string \<rightharpoonup> nat"

definition new_report :: ValidationReport where
  "new_report = \<lparr>errors = [], warnings = [], stats = Map.empty\<rparr>"

definition error :: "message \<Rightarrow> ValidationReport \<Rightarrow> ValidationReport" where
  "error msg r = r\<lparr>errors := errors r @ [msg]\<rparr>"

definition warn :: "message \<Rightarrow> ValidationReport \<Rightarrow> ValidationReport" where
  "warn msg r = r\<lparr>warnings := warnings r @ [msg]\<rparr>"

definition ok :: "ValidationReport \<Rightarrow> bool" where
  "ok r = (length (errors r) = 0)"

definition set_stat :: "string \<Rightarrow> nat \<Rightarrow> ValidationReport \<Rightarrow> ValidationReport" where
  "set_stat k n r = r\<lparr>stats := (stats r)(k \<mapsto> n)\<rparr>"

subsection \<open>Files\<close>

text \<open>
  The validator reads a file in two ways, so a file is what each of them makes of it:
  the lines \<^verbatim>\<open>f.readlines()\<close> returns, and the value \<^verbatim>\<open>json.load(f)\<close> returns, or
  nothing when it raises \<^verbatim>\<open>JSONDecodeError\<close>. The directory tree is a map from paths to
  regular, readable files.
\<close>

record stored_file =
  readlines :: "string list"
  json_load :: "json option"

type_synonym files = "string \<rightharpoonup> stored_file"

text \<open>\<^verbatim>\<open>_load_json\<close>: Python's \<^verbatim>\<open>None\<close> for a missing file is \<open>JNull\<close>.\<close>

definition load_json :: "files \<Rightarrow> string \<Rightarrow> exn + json" where
  "load_json fs path =
     (case fs path of
        None \<Rightarrow> Inr JNull
      | Some f \<Rightarrow> (case json_load f of None \<Rightarrow> Inl JSONDecodeError | Some j \<Rightarrow> Inr j))"

definition read_input_lines :: "files \<Rightarrow> string \<Rightarrow> string list option" where
  "read_input_lines fs input_path =
     (if input_path = [] then None
      else case fs input_path of
             None \<Rightarrow> None
           | Some f \<Rightarrow>
               Some (map (\<lambda>line. rstrip_char (CHR 0x0D) (rstrip_char (CHR 0x0A) line))
                      (readlines f)))"

subsection \<open>Evidence against the input document\<close>

text \<open>
  \<^verbatim>\<open>_validate_evidence_quote\<close>. The source passes \<^verbatim>\<open>ev.model_dump()\<close>, a dictionary
  that has all four keys, so the defaults of its \<^verbatim>\<open>get\<close> calls are never taken; the
  context \<^verbatim>\<open>f"use_cases[{i}]"\<close> is the pair of the list's name and the index.
\<close>

definition validate_evidence_quote ::
  "Evidence \<Rightarrow> string list option \<Rightarrow> ValidationReport \<Rightarrow> string \<Rightarrow> nat \<Rightarrow> ValidationReport" where
  "validate_evidence_quote ev input_lines report ctx i =
     (case input_lines of
        None \<Rightarrow> report
      | Some ls \<Rightarrow>
          if line_start ev < 1 \<or> line_end ev < line_start ev \<or> line_end ev > int (length ls)
          then warn (EvidenceOutOfBounds ctx i (line_start ev) (line_end ev) (length ls)) report
          else
            let actual = join [CHR 0x0A] (py_slice ls (line_start ev - 1) (line_end ev));
                normalized_quote = strip (quote ev);
                normalized_actual = strip actual
            in if normalized_quote \<noteq> [] \<and> \<not> contains normalized_actual normalized_quote
               then warn (EvidenceQuoteMismatch ctx i (line_start ev) (line_end ev)) report
               else report)"

subsection \<open>The local variables of validate\<close>

text \<open>
  The sets are lists without repetition, in insertion order. Python iterates a set of
  strings in an order of its own, so the order in which the model reports the test cases
  without examples is one of the possible orders.
\<close>

record vstate =
  report :: ValidationReport
  use_case_ids :: "string list"
  policy_ids :: "string list"
  policy_types :: "string list"
  test_case_ids :: "string list"
  tc_per_uc :: "(string \<times> int) list"
  ex_per_tc :: "(string \<times> int) list"
  formats_seen :: "string list"
  sources_seen :: "json list"

definition init_vstate :: "ValidationReport \<Rightarrow> vstate" where
  "init_vstate r =
     \<lparr>report = r, use_case_ids = [], policy_ids = [], policy_types = [], test_case_ids = [],
      tc_per_uc = [], ex_per_tc = [], formats_seen = [], sources_seen = []\<rparr>"

definition report_error :: "message \<Rightarrow> vstate \<Rightarrow> vstate" where
  "report_error msg s = s\<lparr>report := error msg (report s)\<rparr>"

definition report_warn :: "message \<Rightarrow> vstate \<Rightarrow> vstate" where
  "report_warn msg s = s\<lparr>report := warn msg (report s)\<rparr>"

text \<open>
  The wrapper check, written four times in the source: a dictionary with the key gives
  the value under it, a bare list is taken with a warning, anything else is an error
  and the empty list.
\<close>

definition unwrap_artifact :: "string \<Rightarrow> string \<Rightarrow> json \<Rightarrow> vstate \<Rightarrow> json \<times> vstate" where
  "unwrap_artifact fname key raw s =
     (case raw of
        JObj d \<Rightarrow>
          (case map_of d key of
             Some v \<Rightarrow> (v, s)
           | None \<Rightarrow> (JList [], report_error (BadWrapper fname key) s))
      | JList xs \<Rightarrow> (JList xs, report_warn (BareArray fname key) s)
      | _ \<Rightarrow> (JList [], report_error (BadWrapper fname key) s))"

subsection \<open>The sections of validate\<close>

definition required_files :: "string list" where
  "required_files =
     [''run_manifest.json'', ''use_cases.json'', ''policies.json'', ''test_cases.json'',
      ''dataset.json'']"

text \<open>The first loop: one error for each required file that does not exist.\<close>

definition check_required_files :: "files \<Rightarrow> string \<Rightarrow> ValidationReport" where
  "check_required_files fs out_path =
     fold (\<lambda>fname r. if fs (path_join out_path fname) = None
                      then error (MissingRequiredFile fname) r else r)
       required_files new_report"

text \<open>
  Validate run\_manifest: only \<^verbatim>\<open>ValidationError\<close> is caught; the manifest's
  \<^verbatim>\<open>input_path\<close> is read when the caller gave none.
\<close>

definition validate_manifest ::
  "coercion \<Rightarrow> files \<Rightarrow> string \<Rightarrow> string \<Rightarrow> string list option \<Rightarrow> vstate
   \<Rightarrow> exn + (string list option \<times> vstate)" where
  "validate_manifest C fs out_path input_path input_lines s =
     andthen (load_json fs (path_join out_path ''run_manifest.json'')) (\<lambda>manifest_data.
       if truthy manifest_data then
         (case construct (RunManifest_of C) manifest_data of
            Inr manifest \<Rightarrow>
              if input_path = [] \<and> rm_input_path manifest \<noteq> []
              then Inr (read_input_lines fs (rm_input_path manifest), s)
              else Inr (input_lines, s)
          | Inl e \<Rightarrow>
              if e = ValidationError then Inr (input_lines, report_error ManifestInvalid s)
              else Inl e)
       else Inr (input_lines, s))"

text \<open>Validate use\_cases.\<close>

definition use_case_body ::
  "coercion \<Rightarrow> string list option \<Rightarrow> nat \<Rightarrow> json \<Rightarrow> vstate \<Rightarrow> exn + vstate" where
  "use_case_body C input_lines i uc s =
     (case construct (UseCase_of C) uc of
        Inr obj \<Rightarrow>
          Inr (s\<lparr>use_case_ids := set_add (uc_id obj) (use_case_ids s),
                 report := fold (\<lambda>ev r. validate_evidence_quote ev input_lines r ''use_cases'' i)
                             (uc_evidence obj) (report s)\<rparr>)
      | Inl e \<Rightarrow>
          if e = ValidationError then Inr (report_error (RecordInvalid ''use_cases'' i) s)
          else Inl e)"

definition validate_use_cases ::
  "coercion \<Rightarrow> files \<Rightarrow> string \<Rightarrow> string list option \<Rightarrow> vstate \<Rightarrow> exn + vstate" where
  "validate_use_cases C fs out_path input_lines s =
     andthen (load_json fs (path_join out_path ''use_cases.json'')) (\<lambda>uc_raw.
       case unwrap_artifact ''use_cases.json'' ''use_cases'' uc_raw s of (uc_list, s1) \<Rightarrow>
         andthen (py_len uc_list) (\<lambda>n.
           let s2 = s1\<lparr>report := set_stat ''use_cases'' n (report s1)\<rparr>;
               s3 = (if n < 5 then report_error (MinUseCases n) s2 else s2)
           in andthen (py_iter uc_list) (\<lambda>items.
                for_enumerate (use_case_body C input_lines) 0 items s3)))"

text \<open>Validate policies.\<close>

definition policy_body ::
  "coercion \<Rightarrow> string list option \<Rightarrow> nat \<Rightarrow> json \<Rightarrow> vstate \<Rightarrow> exn + vstate" where
  "policy_body C input_lines i pol s =
     (case construct (Policy_of C) pol of
        Inr obj \<Rightarrow>
          Inr (s\<lparr>policy_ids := set_add (pol_id obj) (policy_ids s),
                 policy_types := set_add (pol_type obj) (policy_types s),
                 report := fold (\<lambda>ev r. validate_evidence_quote ev input_lines r ''policies'' i)
                             (pol_evidence obj) (report s)\<rparr>)
      | Inl e \<Rightarrow>
          if e = ValidationError then Inr (report_error (RecordInvalid ''policies'' i) s)
          else Inl e)"

definition validate_policies ::
  "coercion \<Rightarrow> files \<Rightarrow> string \<Rightarrow> string list option \<Rightarrow> vstate \<Rightarrow> exn + vstate" where
  "validate_policies C fs out_path input_lines s =
     andthen (load_json fs (path_join out_path ''policies.json'')) (\<lambda>pol_raw.
       case unwrap_artifact ''policies.json'' ''policies'' pol_raw s of (pol_list, s1) \<Rightarrow>
         andthen (py_len pol_list) (\<lambda>n.
           let s2 = s1\<lparr>report := set_stat ''policies'' n (report s1)\<rparr>;
               s3 = (if n < 5 then report_error (MinPolicies n) s2 else s2)
           in andthen (py_iter pol_list) (\<lambda>items.
                andthen (for_enumerate (policy_body C input_lines) 0 items s3) (\<lambda>s4.
                  Inr (if length (policy_types s4) < 2
                       then report_error (MinPolicyTypes (policy_types s4)) s4 else s4)))))"

text \<open>Validate test\_cases, then the floor of three test cases for a use case.\<close>

definition test_case_body :: "nat \<Rightarrow> json \<Rightarrow> vstate \<Rightarrow> exn + vstate" where
  "test_case_body i tc s =
     (case construct TestCase_of tc of
        Inr obj \<Rightarrow>
          let s1 = s\<lparr>test_case_ids := set_add (tc_id obj) (test_case_ids s),
                     tc_per_uc := dict_incr (tc_use_case_id obj) (tc_per_uc s)\<rparr>;
              s2 = (if tc_use_case_id obj \<notin> set (use_case_ids s1)
                    then report_error (UseCaseIdNotFound ''test_cases'' i (tc_use_case_id obj)) s1
                    else s1);
              s3 = fold (\<lambda>pid st. if pid \<notin> set (policy_ids st)
                                    then report_error (PolicyIdNotFound ''test_cases'' i pid) st
                                    else st)
                     (tc_policy_ids obj) s2
          in Inr (if tc_policy_ids obj = [] then report_error (NoPolicyId ''test_cases'' i) s3
                  else s3)
      | Inl e \<Rightarrow>
          if e = ValidationError then Inr (report_error (RecordInvalid ''test_cases'' i) s)
          else Inl e)"

definition check_tc_per_uc :: "vstate \<Rightarrow> vstate" where
  "check_tc_per_uc s =
     fold (\<lambda>(uc_id, count) st. if count < 3 then report_error (TooFewTestCases uc_id count) st
                                else st)
       (tc_per_uc s) s"

definition validate_test_cases :: "files \<Rightarrow> string \<Rightarrow> vstate \<Rightarrow> exn + vstate" where
  "validate_test_cases fs out_path s =
     andthen (load_json fs (path_join out_path ''test_cases.json'')) (\<lambda>tc_raw.
       case unwrap_artifact ''test_cases.json'' ''test_cases'' tc_raw s of (tc_list, s1) \<Rightarrow>
         andthen (py_len tc_list) (\<lambda>n.
           let s2 = s1\<lparr>report := set_stat ''test_cases'' n (report s1)\<rparr>
           in andthen (py_iter tc_list) (\<lambda>items.
                andthen (for_enumerate test_case_body 0 items s2) (\<lambda>s3.
                  Inr (check_tc_per_uc s3)))))"

text \<open>
  Validate dataset. \<^verbatim>\<open>sources_seen.add(v)\<close> raises \<^verbatim>\<open>TypeError\<close> for a list or a
  dictionary, which cannot be hashed; the members of the set are distinct up to \<^verbatim>\<open>==\<close>.
\<close>

fun hashable :: "json \<Rightarrow> bool" where
  "hashable (JList xs) = False"
| "hashable (JObj kvs) = False"
| "hashable _ = True"

definition sources_add :: "json \<Rightarrow> vstate \<Rightarrow> exn + vstate" where
  "sources_add v s =
     (if \<not> hashable v then Inl TypeError
      else if list_ex (\<lambda>y. py_eq y v) (sources_seen s) then Inr s
      else Inr (s\<lparr>sources_seen := sources_seen s @ [v]\<rparr>))"

text \<open>Referential integrity of one example.\<close>

definition referential_checks :: "nat \<Rightarrow> DatasetExample \<Rightarrow> vstate \<Rightarrow> vstate" where
  "referential_checks i obj s =
     (let s1 = (if ex_use_case_id obj \<notin> set (use_case_ids s)
                then report_error (UseCaseIdNotFound ''dataset'' i (ex_use_case_id obj)) s
                else s);
          s2 = (if ex_test_case_id obj \<notin> set (test_case_ids s1)
                then report_error (TestCaseIdNotFound i (ex_test_case_id obj)) s1
                else s1);
          s3 = fold (\<lambda>pid st. if pid \<notin> set (policy_ids st)
                                then report_error (PolicyIdNotFound ''dataset'' i pid) st
                                else st)
                 (ex_policy_ids obj) s2
      in if ex_policy_ids obj = [] then report_error (NoPolicyId ''dataset'' i) s3 else s3)"

text \<open>
  Format-specific checks of one example, on the value \<open>messages\<close> of
  \<^verbatim>\<open>obj.input.get("messages", [])\<close> and the dictionary \<^verbatim>\<open>obj.input\<close>.
\<close>

definition single_utterance_checks ::
  "nat \<Rightarrow> json \<Rightarrow> (string \<times> json) list \<Rightarrow> vstate \<Rightarrow> exn + vstate" where
  "single_utterance_checks i messages inp s =
     andthen (py_len messages) (\<lambda>n.
       let s1 = (if n \<noteq> 1 then report_warn (SingleNotOneMessage i n) s else s)
       in andthen
            (if truthy messages
             then andthen (py_first messages) (\<lambda>m.
                    andthen (py_get m ''role'') (\<lambda>role.
                      Inr (if \<not> py_eq role (JStr ''operator'')
                           then report_error (SingleRoleNotOperator i) s1 else s1)))
             else Inr s1)
            (\<lambda>s2.
               let tmi = dict_get inp ''target_message_index''
               in Inr (if tmi = JNull then report_warn (SingleTargetMissing i) s2
                       else if \<not> py_eq tmi (JInt 0) then report_warn (SingleTargetNotZero i) s2
                       else s2)))"

definition dialog_last_turn_checks ::
  "nat \<Rightarrow> json \<Rightarrow> (string \<times> json) list \<Rightarrow> vstate \<Rightarrow> exn + vstate" where
  "dialog_last_turn_checks i messages inp s =
     andthen (py_len messages) (\<lambda>n.
       let s1 = (if n < 2 then report_error (DialogTooFewMessages i) s else s)
       in andthen
            (if truthy messages
             then andthen (py_last messages) (\<lambda>m.
                    andthen (py_get m ''role'') (\<lambda>role.
                      Inr (if \<not> py_eq role (JStr ''operator'')
                           then report_error (DialogLastRoleNotOperator i) s1 else s1)))
             else Inr s1)
            (\<lambda>s2.
               let tmi = dict_get inp ''target_message_index''
               in Inr (if tmi = JNull then report_error (DialogTargetMissing i) s2
                       else if \<not> py_eq tmi (JInt (int n - 1))
                       then report_error (DialogTargetWrong i tmi (int n - 1)) s2
                       else s2)))"

definition format_checks ::
  "nat \<Rightarrow> string \<Rightarrow> json \<Rightarrow> (string \<times> json) list \<Rightarrow> vstate \<Rightarrow> exn + vstate" where
  "format_checks i fmt messages inp s =
     (if fmt = ''single_utterance_correction'' then single_utterance_checks i messages inp s
      else if fmt = ''dialog_last_turn_correction'' then dialog_last_turn_checks i messages inp s
      else Inr s)"

definition dataset_body :: "nat \<Rightarrow> json \<Rightarrow> vstate \<Rightarrow> exn + vstate" where
  "dataset_body i ex s =
     (case construct DatasetExample_of ex of
        Inr obj \<Rightarrow>
          let s1 = s\<lparr>formats_seen := set_add (ex_format obj) (formats_seen s),
                     ex_per_tc := dict_incr (ex_test_case_id obj) (ex_per_tc s)\<rparr>;
              source = dict_get (ex_metadata obj) ''source''
          in andthen (if truthy source then sources_add source s1 else Inr s1) (\<lambda>s2.
               let s3 = referential_checks i obj s2;
                   messages = dict_get_default (ex_input obj) ''messages'' (JList []);
                   s4 = (if \<not> truthy messages then report_error (MessagesEmpty i) s3 else s3)
               in andthen (format_checks i (ex_format obj) messages (ex_input obj) s4) (\<lambda>s5.
                    Inr (if ex_case obj = ''support_bot'' \<and> \<not> truthy source
                         then report_warn (SupportSourceMissing i) s5 else s5)))
      | Inl e \<Rightarrow>
          if e = ValidationError then Inr (report_error (RecordInvalid ''dataset'' i) s)
          else Inl e)"

text \<open>The value \<open>ds_list\<close> is returned with the state: the coverage check reads it again.\<close>

definition validate_dataset :: "files \<Rightarrow> string \<Rightarrow> vstate \<Rightarrow> exn + (json \<times> vstate)" where
  "validate_dataset fs out_path s =
     andthen (load_json fs (path_join out_path ''dataset.json'')) (\<lambda>ds_raw.
       case unwrap_artifact ''dataset.json'' ''examples'' ds_raw s of (ds_list, s1) \<Rightarrow>
         andthen (py_len ds_list) (\<lambda>n.
           let s2 = s1\<lparr>report := set_stat ''examples'' n (report s1)\<rparr>
           in andthen (py_iter ds_list) (\<lambda>items.
                andthen (for_enumerate dataset_body 0 items s2) (\<lambda>s3. Inr (ds_list, s3)))))"

text \<open>
  Coverage checks: every test case has an example; then the check of the whole dataset,
  whose case type is read from the first record of \<open>ds_list\<close> as it is in the file.
\<close>

definition check_examples_per_tc :: "vstate \<Rightarrow> vstate" where
  "check_examples_per_tc s =
     fold (\<lambda>tc_id st. if map_of (ex_per_tc st) tc_id = None
                        then report_error (TestCaseNoExamples tc_id) st else st)
       (test_case_ids s) s"

definition first_case_type :: "json \<Rightarrow> exn + json" where
  "first_case_type ds_list =
     (if truthy ds_list then andthen (py_first ds_list) (\<lambda>first. py_get first ''case'')
      else Inr JNull)"

definition case_coverage :: "json \<Rightarrow> vstate \<Rightarrow> vstate" where
  "case_coverage case_type s =
     (if py_eq case_type (JStr ''support_bot'') then
        let missing = filter (\<lambda>x. \<not> list_ex (\<lambda>y. py_eq y (JStr x)) (sources_seen s))
                        [''tickets'', ''faq_paraphrase'', ''corner'']
        in if missing \<noteq> [] then report_error (SupportMissingSources missing) s else s
      else if py_eq case_type (JStr ''operator_quality'') then
        let missing = filter (\<lambda>x. x \<notin> set (formats_seen s))
                        [''single_utterance_correction'', ''dialog_last_turn_correction'']
        in if missing \<noteq> [] then report_error (OperatorMissingFormats missing) s else s
      else s)"

text \<open>
  The two lines printed after the statistics, \<^verbatim>\<open>', '.join(sorted(xs))\<close> for a set
  that is not empty. The text goes to the terminal and is not part of the report; the
  call raises \<^verbatim>\<open>TypeError\<close> as soon as a member of the set is not a string: in
  \<^verbatim>\<open>sorted\<close> when a string is compared with a number, in \<^verbatim>\<open>join\<close> otherwise.
\<close>

fun is_str :: "json \<Rightarrow> bool" where
  "is_str (JStr s) = True"
| "is_str _ = False"

definition print_sorted :: "json list \<Rightarrow> exn + unit" where
  "print_sorted xs =
     (if xs \<noteq> [] then (if list_all is_str xs then Inr () else Inl TypeError) else Inr ())"

definition coverage_checks :: "json \<Rightarrow> vstate \<Rightarrow> exn + vstate" where
  "coverage_checks ds_list s =
     (let s1 = check_examples_per_tc s;
          s2 = s1\<lparr>report := set_stat ''sources'' (length (sources_seen s1))
                               (set_stat ''formats'' (length (formats_seen s1)) (report s1))\<rparr>
      in andthen (print_sorted (map JStr (formats_seen s2))) (\<lambda>u.
         andthen (print_sorted (sources_seen s2)) (\<lambda>u.
         andthen (first_case_type ds_list) (\<lambda>case_type.
           Inr (case_coverage case_type s2)))))"

subsection \<open>validate\<close>

text \<open>Everything after the early return, from the report of the first loop.\<close>

definition check_artifacts ::
  "coercion \<Rightarrow> files \<Rightarrow> string \<Rightarrow> string \<Rightarrow> ValidationReport \<Rightarrow> exn + ValidationReport" where
  "check_artifacts C fs out_path input_path report0 =
     (let input_lines = (if input_path \<noteq> [] then read_input_lines fs input_path else None)
      in andthen (validate_manifest C fs out_path input_path input_lines (init_vstate report0))
           (\<lambda>(input_lines, s0).
         andthen (validate_use_cases C fs out_path input_lines s0) (\<lambda>s1.
         andthen (validate_policies C fs out_path input_lines s1) (\<lambda>s2.
         andthen (validate_test_cases fs out_path s2) (\<lambda>s3.
         andthen (validate_dataset fs out_path s3) (\<lambda>(ds_list, s4).
         andthen (coverage_checks ds_list s4) (\<lambda>s5. Inr (report s5))))))))"

definition validate :: "coercion \<Rightarrow> files \<Rightarrow> string \<Rightarrow> string \<Rightarrow> exn + ValidationReport" where
  "validate C fs out_path input_path =
     (let report0 = check_required_files fs out_path
      in if \<not> ok report0 then Inr report0
         else check_artifacts C fs out_path input_path report0)"

section \<open>dataset\_generator.py: the format of a test case\<close>

text \<open>
  \<^verbatim>\<open>_get_format_for_case(case_type, tc_index)\<close>. The index is a Python \<^verbatim>\<open>int\<close>; for the
  divisor 2 Python's \<^verbatim>\<open>%\<close> and \<open>mod\<close> on \<open>int\<close> agree (both round towards minus
  infinity).
\<close>

definition get_format_for_case :: "string \<Rightarrow> int \<Rightarrow> string" where
  "get_format_for_case case_type tc_index =
     (if case_type = ''support_bot'' then ''single_turn_qa''
      else if tc_index mod 2 = 0 then ''single_utterance_correction''
      else ''dialog_last_turn_correction'')"

section \<open>Predicates of the properties\<close>

text \<open>The two errors of the case-wide coverage check.\<close>

fun is_coverage_error :: "message \<Rightarrow> bool" where
  "is_coverage_error (SupportMissingSources ms) = True"
| "is_coverage_error (OperatorMissingFormats ms) = True"
| "is_coverage_error _ = False"

definition no_coverage_error :: "vstate \<Rightarrow> bool" where
  "no_coverage_error s = (\<forall>m \<in> set (errors (report s)). \<not> is_coverage_error m)"





section \<open>extractor.py: evidence validation\<close>

text \<open>
  \<^verbatim>\<open>a < b\<close> where one side is a number: a bool, an int and a float compare by value, any
  other value against a number raises \<^verbatim>\<open>TypeError\<close>.
\<close>

definition py_lt :: "json \<Rightarrow> json \<Rightarrow> exn + bool" where
  "py_lt a b =
     (case (num_of a, num_of b) of
        (Some x, Some y) \<Rightarrow> Inr (x < y)
      | _ \<Rightarrow> Inl TypeError)"

text \<open>
  \<^verbatim>\<open>min(a, b)\<close> and \<^verbatim>\<open>max(a, b)\<close> keep \<open>a\<close> unless \<open>b\<close> is strictly smaller (greater),
  so the result is one of the two values as it is: an int stays an int, a float a float.
\<close>

definition py_min :: "json \<Rightarrow> json \<Rightarrow> exn + json" where
  "py_min a b = andthen (py_lt b a) (\<lambda>lt. Inr (if lt then b else a))"

definition py_max :: "json \<Rightarrow> json \<Rightarrow> exn + json" where
  "py_max a b = andthen (py_lt a b) (\<lambda>lt. Inr (if lt then b else a))"

text \<open>\<^verbatim>\<open>x - 1\<close> on a number.\<close>

fun py_minus_one :: "json \<Rightarrow> exn + json" where
  "py_minus_one (JInt n) = Inr (JInt (n - 1))"
| "py_minus_one (JBool b) = Inr (JInt ((if b then 1 else 0) - 1))"
| "py_minus_one (JFloat r) = Inr (JFloat (r - 1))"
| "py_minus_one _ = Inl TypeError"

text \<open>A bound of a slice has to be an integer: a float raises \<^verbatim>\<open>TypeError\<close>.\<close>

fun slice_index :: "json \<Rightarrow> exn + int" where
  "slice_index (JInt n) = Inr n"
| "slice_index (JBool b) = Inr (if b then 1 else 0)"
| "slice_index _ = Inl TypeError"

text \<open>\<^verbatim>\<open>x.get(k, default)\<close> and \<^verbatim>\<open>x.strip()\<close> on any value.\<close>

fun py_get_default :: "json \<Rightarrow> string \<Rightarrow> json \<Rightarrow> exn + json" where
  "py_get_default (JObj d) k dflt = Inr (dict_get_default d k dflt)"
| "py_get_default _ k dflt = Inl AttributeError"

fun py_strip :: "json \<Rightarrow> exn + string" where
  "py_strip (JStr s) = Inr (strip s)"
| "py_strip _ = Inl AttributeError"

text \<open>A loop that appends one result for each item, left at the first exception.\<close>

fun for_each :: "('a \<Rightarrow> exn + 'b) \<Rightarrow> 'a list \<Rightarrow> exn + 'b list" where
  "for_each f [] = Inr []"
| "for_each f (x # xs) =
     (case f x of
        Inl e \<Rightarrow> Inl e
      | Inr y \<Rightarrow> (case for_each f xs of Inl e \<Rightarrow> Inl e | Inr ys \<Rightarrow> Inr (y # ys)))"

text \<open>
  The body of the loop of \<^verbatim>\<open>_validate_evidence\<close> for one entry \<open>ev\<close> of the gateway's
  evidence list. The record is built from values that pydantic accepts as they are: the
  line numbers are integers once the slice has been taken, the quote is a string once
  \<^verbatim>\<open>strip\<close> has been called on it.
\<close>

definition validate_evidence_entry :: "string list \<Rightarrow> string \<Rightarrow> json \<Rightarrow> exn + Evidence" where
  "validate_evidence_entry raw_lines input_file' ev =
     andthen (py_get_default ev ''line_start'' (JInt 1)) (\<lambda>line_start0.
     andthen (py_get_default ev ''line_end'' line_start0) (\<lambda>line_end0.
     andthen (py_get_default ev ''quote'' (JStr [])) (\<lambda>quote'.
     andthen (py_min line_start0 (JInt (int (length raw_lines)))) (\<lambda>m1.
     andthen (py_max (JInt 1) m1) (\<lambda>line_start'.
     andthen (py_min line_end0 (JInt (int (length raw_lines)))) (\<lambda>m2.
     andthen (py_max line_start' m2) (\<lambda>line_end'.
     andthen (py_minus_one line_start') (\<lambda>lo.
     andthen (slice_index lo) (\<lambda>a.
     andthen (slice_index line_end') (\<lambda>b.
     andthen (slice_index line_start') (\<lambda>ls.
       let actual_text = join [CHR 0x0A] (py_slice raw_lines a b)
       in andthen (py_strip quote') (\<lambda>stripped.
            let final_quote = (if stripped \<noteq> [] \<and> contains actual_text stripped
                               then stripped else strip actual_text)
            in Inr \<lparr>input_file = input_file', line_start = ls, line_end = b,
                     quote = (if final_quote \<noteq> [] then final_quote
                              else case quote' of JStr q \<Rightarrow> q | _ \<Rightarrow> [])\<rparr>))))))))))))"

definition validate_evidence :: "json \<Rightarrow> string list \<Rightarrow> string \<Rightarrow> exn + Evidence list" where
  "validate_evidence evidence_list raw_lines input_file' =
     andthen (py_iter evidence_list) (for_each (validate_evidence_entry raw_lines input_file'))"



section \<open>The gateway and the configuration\<close>

text \<open>The fields of \<^verbatim>\<open>Config\<close> that the generation stages read.\<close>

record Config =
  n_use_cases :: int
  n_test_cases_per_uc :: int
  n_examples_per_tc :: int

text \<open>
  A prompt is the text that a stage formats from a few values; the model keeps the
  values: for the test-case stage the configuration, the use case, the case type, the
  variation axes and the known policy ids, for the dataset stage the configuration, the
  use case, the test case, the format and the policy statements.
\<close>

datatype prompt =
    TestCasesPrompt Config UseCase string "string list" "string list"
  | ExamplesPrompt Config UseCase TestCase string "string list"

text \<open>
  \<^verbatim>\<open>llm.generate_json\<close> is outside the stages: the answer to the \<open>k\<close>-th call of a run
  is any function of \<open>k\<close> and the prompt, a parsed JSON value or an exception (retries
  happen inside the call). A stage returns the prompts it has sent beside its result.
\<close>

type_synonym gateway = "nat \<Rightarrow> prompt \<Rightarrow> exn + json"

text \<open>
  The normalisation after every gateway call, \<^verbatim>\<open>result.get(key, result) if
  isinstance(result, dict) else result\<close>, a single dictionary becoming a list of one.
\<close>

definition unwrap_result :: "string \<Rightarrow> json \<Rightarrow> json" where
  "unwrap_result key result =
     (let raw = (case result of JObj d \<Rightarrow> dict_get_default d key result | _ \<Rightarrow> result)
      in case raw of JObj d \<Rightarrow> JList [raw] | _ \<Rightarrow> raw)"

text \<open>The items of \<^verbatim>\<open>x[:n]\<close>: only a list and a string can be sliced.\<close>

fun py_take :: "json \<Rightarrow> int \<Rightarrow> exn + json list" where
  "py_take (JList xs) n = Inr (py_slice xs 0 n)"
| "py_take (JStr s) n = Inr (map (\<lambda>c. JStr [c]) (py_slice s 0 n))"
| "py_take _ n = Inl TypeError"

text \<open>The decimal digits of a number, for \<^verbatim>\<open>f"tc_{tc_counter}"\<close>.\<close>

fun decimal :: "nat \<Rightarrow> string" where
  "decimal n =
     (if n < 10 then [''0123456789'' ! n]
      else decimal (n div 10) @ [''0123456789'' ! (n mod 10)])"

declare decimal.simps [simp del]

section \<open>test\_case\_generator.py\<close>

definition support_bot_axes :: "string list" where
  "support_bot_axes =
     [''tone'', ''has_order_id'', ''requires_account'', ''language'', ''abuse'', ''garbage'']"

definition VARIATION_AXES :: "string \<rightharpoonup> string list" where
  "VARIATION_AXES =
     [''support_bot'' \<mapsto> support_bot_axes,
      ''operator_quality'' \<mapsto>
        [''punctuation_errors'', ''slang'', ''medical_terms'', ''escalation_needed'', ''emoji'']]"

text \<open>
  The body of the inner loop for one record \<open>tc_data\<close> of the gateway's answer: the
  policy ids that are not known are dropped, and an empty rest is replaced by the first
  two known ids.
\<close>

definition make_test_case ::
  "string \<Rightarrow> string list \<Rightarrow> UseCase \<Rightarrow> nat \<Rightarrow> json \<Rightarrow> exn + TestCase" where
  "make_test_case case_type policy_ids' uc tc_counter tc_data =
     andthen (py_get_default tc_data ''parameters'' (JObj [])) (\<lambda>params.
     andthen (py_get_default tc_data ''policy_ids'' (JList [])) (\<lambda>pids0.
     andthen (py_iter pids0) (\<lambda>items.
       let pids1 = filter (\<lambda>p. list_ex (\<lambda>k. py_eq p (JStr k)) policy_ids') items;
           pids = (if pids1 = [] then map JStr (take 2 policy_ids') else pids1)
       in construct TestCase_of
            (JObj [(''id'', JStr (''tc_'' @ decimal tc_counter)), (''case'', JStr case_type),
                   (''use_case_id'', JStr (uc_id uc)), (''parameters'', params),
                   (''policy_ids'', JList pids)]))))"

text \<open>The inner loop, on the list of test cases and the counter.\<close>

definition append_test_case ::
  "string \<Rightarrow> string list \<Rightarrow> UseCase \<Rightarrow> nat \<Rightarrow> json \<Rightarrow> TestCase list \<times> nat
   \<Rightarrow> exn + TestCase list \<times> nat" where
  "append_test_case case_type policy_ids' uc i tc_data acc =
     (case acc of (all_test_cases, tc_counter) \<Rightarrow>
        andthen (make_test_case case_type policy_ids' uc tc_counter tc_data) (\<lambda>tc.
          Inr (all_test_cases @ [tc], tc_counter + 1)))"

text \<open>
  The loop over the use cases. The state is the list of test cases, the counter and the
  prompts sent; an exception of the gateway or of the body leaves the function.
\<close>

fun test_cases_loop ::
  "Config \<Rightarrow> gateway \<Rightarrow> string \<Rightarrow> string list \<Rightarrow> string list \<Rightarrow> UseCase list
   \<Rightarrow> (TestCase list \<times> nat) \<Rightarrow> prompt list \<Rightarrow> (exn + TestCase list) \<times> prompt list" where
  "test_cases_loop config gw case_type axes policy_ids' [] acc calls = (Inr (fst acc), calls)"
| "test_cases_loop config gw case_type axes policy_ids' (uc # ucs) acc calls =
     (let prompt = TestCasesPrompt config uc case_type axes policy_ids'
      in case gw (length calls) prompt of
           Inl e \<Rightarrow> (Inl e, calls @ [prompt])
         | Inr result \<Rightarrow>
             (case andthen (py_take (unwrap_result ''test_cases'' result)
                             (n_test_cases_per_uc config))
                     (\<lambda>items. for_enumerate (append_test_case case_type policy_ids' uc) 0 items acc) of
                Inl e \<Rightarrow> (Inl e, calls @ [prompt])
              | Inr acc' \<Rightarrow>
                  test_cases_loop config gw case_type axes policy_ids' ucs acc'
                    (calls @ [prompt])))"

definition generate_test_cases ::
  "Config \<Rightarrow> gateway \<Rightarrow> UseCase list \<Rightarrow> Policy list \<Rightarrow> (exn + TestCase list) \<times> prompt list" where
  "generate_test_cases config gw use_cases policies =
     (let case_type = (if use_cases \<noteq> [] then uc_case (hd use_cases) else ''support_bot'');
          axes = (case VARIATION_AXES case_type of
                    Some a \<Rightarrow> a
                  | None \<Rightarrow> support_bot_axes);
          policy_ids' = map pol_id policies
      in test_cases_loop config gw case_type axes policy_ids' use_cases ([], 1) [])"


text \<open>The policy ids of a gateway record that are known.\<close>

definition kept_policy_ids :: "string list \<Rightarrow> json list \<Rightarrow> json list" where
  "kept_policy_ids known items = filter (\<lambda>p. p \<in> JStr ` set known) items"


section \<open>Concrete inputs\<close>

text \<open>The inputs at which the properties below are evaluated.\<close>

definition no_coercion :: coercion where
  "no_coercion = \<lparr>lax_int = (\<lambda>v. None), lax_float = (\<lambda>v. None)\<rparr>"

definition empty_file :: stored_file where
  "empty_file = \<lparr>readlines = [], json_load = None\<rparr>"

text \<open>An output directory with the four artifacts and no manifest.\<close>

definition fs_no_manifest :: files where
  "fs_no_manifest =
     [''out/use_cases.json'' \<mapsto> empty_file, ''out/policies.json'' \<mapsto> empty_file,
      ''out/test_cases.json'' \<mapsto> empty_file, ''out/dataset.json'' \<mapsto> empty_file]"

text \<open>A file that holds a JSON document.\<close>

definition json_file :: "json \<Rightarrow> stored_file" where
  "json_file j = \<lparr>readlines = [], json_load = Some j\<rparr>"


text \<open>
  A complete run for a support document: five use cases, five policies, three test cases
  for each of the first four use cases and none for the fifth, one example for each test
  case.
\<close>

definition manifest_json :: json where
  "manifest_json =
     JObj [(''input_path'', JStr ''/data/doc.md''), (''out_path'', JStr ''out''),
           (''seed'', JInt 42), (''timestamp'', JStr ''2025-01-01T00:00:00+00:00''),
           (''generator_version'', JStr ''0.1.0''),
           (''llm'', JObj [(''provider'', JStr ''google''), (''model'', JStr ''gemini-2.0-flash''),
                          (''temperature'', JInt 1)])]"

definition evidence_json :: json where
  "evidence_json =
     JObj [(''input_file'', JStr ''doc.md''), (''line_start'', JInt 1), (''line_end'', JInt 1),
           (''quote'', JStr ''FAQ'')]"

definition use_case_json :: "string \<Rightarrow> json" where
  "use_case_json n =
     JObj [(''id'', JStr (''uc_'' @ n)), (''case'', JStr ''support_bot''),
           (''name'', JStr ''Order status''), (''description'', JStr ''Where is my order''),
           (''evidence'', JList [evidence_json])]"

definition policy_json :: "string \<Rightarrow> string \<Rightarrow> json" where
  "policy_json n t =
     JObj [(''id'', JStr (''pol_'' @ n)), (''type'', JStr t), (''case'', JStr ''support_bot''),
           (''statement'', JStr ''Be polite''), (''evidence'', JList [evidence_json])]"

definition test_case_json :: "string \<Rightarrow> string \<Rightarrow> json" where
  "test_case_json n u =
     JObj [(''id'', JStr (''tc_'' @ n)), (''case'', JStr ''support_bot''),
           (''use_case_id'', JStr (''uc_'' @ u)), (''parameters'', JObj [(''tone'', JStr ''polite'')]),
           (''policy_ids'', JList [JStr ''pol_1''])]"

definition example_json :: "string \<Rightarrow> string \<Rightarrow> string \<Rightarrow> json" where
  "example_json n u src =
     JObj [(''id'', JStr (''ex_'' @ n)), (''case'', JStr ''support_bot''),
           (''format'', JStr ''single_turn_qa''), (''use_case_id'', JStr (''uc_'' @ u)),
           (''test_case_id'', JStr (''tc_'' @ n)),
           (''input'', JObj [(''messages'',
               JList [JObj [(''role'', JStr ''user''), (''content'', JStr ''Hello'')]])]),
           (''expected_output'', JStr ''Hi''),
           (''evaluation_criteria'', JList [JStr ''a'', JStr ''b'', JStr ''c'']),
           (''policy_ids'', JList [JStr ''pol_1'']),
           (''metadata'', JObj [(''source'', JStr src), (''split'', JStr ''test'')])]"

definition fs_uncovered_use_case :: files where
  "fs_uncovered_use_case =
     [''out/run_manifest.json'' \<mapsto> json_file manifest_json,
      ''out/use_cases.json'' \<mapsto> json_file (JObj [(''use_cases'',
         JList [use_case_json ''1'', use_case_json ''2'', use_case_json ''3'',
                use_case_json ''4'', use_case_json ''5''])]),
      ''out/policies.json'' \<mapsto> json_file (JObj [(''policies'',
         JList [policy_json ''1'' ''must'', policy_json ''2'' ''must_not'',
                policy_json ''3'' ''escalate'', policy_json ''4'' ''style'',
                policy_json ''5'' ''format''])]),
      ''out/test_cases.json'' \<mapsto> json_file (JObj [(''test_cases'',
         JList [test_case_json ''1'' ''1'', test_case_json ''2'' ''1'', test_case_json ''3'' ''1'',
                test_case_json ''4'' ''2'', test_case_json ''5'' ''2'', test_case_json ''6'' ''2'',
                test_case_json ''7'' ''3'', test_case_json ''8'' ''3'', test_case_json ''9'' ''3'',
                test_case_json ''10'' ''4'', test_case_json ''11'' ''4'',
                test_case_json ''12'' ''4''])]),
      ''out/dataset.json'' \<mapsto> json_file (JObj [(''examples'',
         JList [example_json ''1'' ''1'' ''tickets'', example_json ''2'' ''1'' ''faq_paraphrase'',
                example_json ''3'' ''1'' ''corner'', example_json ''4'' ''2'' ''tickets'',
                example_json ''5'' ''2'' ''faq_paraphrase'', example_json ''6'' ''2'' ''corner'',
                example_json ''7'' ''3'' ''tickets'', example_json ''8'' ''3'' ''faq_paraphrase'',
                example_json ''9'' ''3'' ''corner'', example_json ''10'' ''4'' ''tickets'',
                example_json ''11'' ''4'' ''faq_paraphrase'',
                example_json ''12'' ''4'' ''corner''])])]"





text \<open>Evidence lists as a gateway may return them.\<close>

definition evidence_out_of_range :: json where
  "evidence_out_of_range =
     JList [JObj [(''line_start'', JInt 0), (''line_end'', JInt 99), (''quote'', JStr ''b'')]]"

definition evidence_line_one :: json where
  "evidence_line_one =
     JList [JObj [(''line_start'', JInt 1), (''line_end'', JInt 1), (''quote'', JStr ''N/A'')]]"


text \<open>
  A run of the test-case stage: one use case, and a gateway whose only record has no
  policy ids.
\<close>

definition config_default :: Config where
  "config_default = \<lparr>n_use_cases = 8, n_test_cases_per_uc = 5, n_examples_per_tc = 2\<rparr>"

definition use_case_1 :: UseCase where
  "use_case_1 =
     \<lparr>uc_id = ''uc_1'', uc_case = ''support_bot'', uc_name = ''Order status'',
      uc_description = ''Where is my order'',
      uc_evidence = [\<lparr>input_file = ''doc.md'', line_start = 1, line_end = 1,
                      quote = ''FAQ''\<rparr>]\<rparr>"

definition policy_n :: "string \<Rightarrow> Policy" where
  "policy_n n =
     \<lparr>pol_id = ''pol_'' @ n, pol_type = ''must'', pol_case = ''support_bot'',
      pol_statement = ''Be polite'',
      pol_evidence = [\<lparr>input_file = ''doc.md'', line_start = 1, line_end = 1,
                       quote = ''FAQ''\<rparr>]\<rparr>"

definition gateway_no_policy_ids :: gateway where
  "gateway_no_policy_ids k p =
     Inr (JObj [(''test_cases'',
       JList [JObj [(''parameters'', JObj [(''tone'', JStr ''polite'')]),
                    (''policy_ids'', JList [])]])])"


section \<open>Properties\<close>

text \<open>
  C8: the format chosen for a test case is a function of its case type and its position
  alone: \<open>support_bot\<close> always gives \<open>single_turn_qa\<close>; \<open>operator_quality\<close> gives
  \<open>single_utterance_correction\<close> at even positions and \<open>dialog_last_turn_correction\<close>
  at odd positions.
\<close>

theorem format_for_case_deterministic:
  "get_format_for_case ''support_bot'' i = ''single_turn_qa''
   \<and> (even i \<longrightarrow> get_format_for_case ''operator_quality'' i = ''single_utterance_correction'')
   \<and> (odd i \<longrightarrow> get_format_for_case ''operator_quality'' i = ''dialog_last_turn_correction'')"
  by (auto simp: get_format_for_case_def even_iff_mod_2_eq_zero)

theorem format_for_case_deterministic_witness:
  "get_format_for_case ''support_bot'' 7 = ''single_turn_qa''
   \<and> even (4::int) \<and> get_format_for_case ''operator_quality'' 4 = ''single_utterance_correction''
   \<and> odd (7::int) \<and> get_format_for_case ''operator_quality'' 7 = ''dialog_last_turn_correction''"
  using format_for_case_deterministic [of 7] format_for_case_deterministic [of 4]
  by simp


subsection \<open>The required files\<close>

lemma fold_required:
  "fold (\<lambda>fname r. if P fname then error (M fname) r else r) xs r0 =
   r0\<lparr>errors := errors r0 @ map M (filter P xs)\<rparr>"
  by (induction xs arbitrary: r0) (simp_all add: error_def)

lemma check_required_files_eq:
  "check_required_files fs out_path =
   \<lparr>errors = map MissingRequiredFile
               (filter (\<lambda>f. fs (path_join out_path f) = None) required_files),
    warnings = [], stats = Map.empty\<rparr>"
  unfolding check_required_files_def
  by (simp add: fold_required new_report_def)

text \<open>The early return of \<open>validate\<close>, by cases on the required files.\<close>

lemma validate_cases:
  "validate C fs out_path input_path =
     (if \<exists>f \<in> set required_files. fs (path_join out_path f) = None
      then Inr \<lparr>errors = map MissingRequiredFile
                            (filter (\<lambda>f. fs (path_join out_path f) = None) required_files),
                 warnings = [], stats = Map.empty\<rparr>
      else check_artifacts C fs out_path input_path new_report)"
proof (cases "\<exists>f \<in> set required_files. fs (path_join out_path f) = None")
  case True
  then have "filter (\<lambda>f. fs (path_join out_path f) = None) required_files \<noteq> []"
    by (simp only: filter_empty_conv) blast
  then have "validate C fs out_path input_path = Inr (check_required_files fs out_path)"
    by (simp add: validate_def check_required_files_eq ok_def Let_def)
  then show ?thesis
    by (simp only: check_required_files_eq True if_True)
next
  case False
  then have "filter (\<lambda>f. fs (path_join out_path f) = None) required_files = []"
    by (simp add: filter_empty_conv)
  then have "check_required_files fs out_path = new_report"
    by (simp add: check_required_files_eq new_report_def)
  then have "validate C fs out_path input_path =
             check_artifacts C fs out_path input_path new_report"
    by (simp add: validate_def ok_def Let_def new_report_def)
  then show ?thesis
    by (simp only: False if_False)
qed

text \<open>
  C3, as the code has it: the validator returns at once, before it loads any artifact,
  exactly when one of the five required files is missing, the run manifest being the
  fifth beside the four artifacts. The report then holds one error for each missing file, in
  the order of the list, no warning and no statistics. When all five exist, the
  remaining checks run on the empty report.
\<close>

theorem required_files_gate:
  "validate C fs out_path input_path =
     (if \<exists>f \<in> set required_files. fs (path_join out_path f) = None
      then Inr \<lparr>errors = map MissingRequiredFile
                            (filter (\<lambda>f. fs (path_join out_path f) = None) required_files),
                 warnings = [], stats = Map.empty\<rparr>
      else check_artifacts C fs out_path input_path new_report)"
  by (rule validate_cases)

theorem required_files_gate_witness:
  "(\<exists>f \<in> set required_files. fs_no_manifest (path_join ''out'' f) = None)
   \<and> validate no_coercion fs_no_manifest ''out'' [] =
       Inr \<lparr>errors = [MissingRequiredFile ''run_manifest.json''], warnings = [],
            stats = Map.empty\<rparr>"
  using required_files_gate [of no_coercion fs_no_manifest "''out''" "[]"]
  by (simp add: required_files_def path_join_def fs_no_manifest_def)

text \<open>
  The claim as the specification words it fails: with the four artifacts in place and
  only the manifest missing, the validator still returns at once.
\<close>

theorem four_files_gate_counterexample:
  "fs_no_manifest (path_join ''out'' ''use_cases.json'') \<noteq> None
   \<and> fs_no_manifest (path_join ''out'' ''policies.json'') \<noteq> None
   \<and> fs_no_manifest (path_join ''out'' ''test_cases.json'') \<noteq> None
   \<and> fs_no_manifest (path_join ''out'' ''dataset.json'') \<noteq> None
   \<and> validate no_coercion fs_no_manifest ''out'' [] =
       Inr \<lparr>errors = [MissingRequiredFile ''run_manifest.json''], warnings = [],
            stats = Map.empty\<rparr>"
  by (simp add: validate_def check_required_files_def required_files_def path_join_def
      fs_no_manifest_def error_def new_report_def ok_def)


subsection \<open>The errors of the coverage check\<close>

lemma for_enumerate_invariant:
  assumes step: "\<And>i x s s'. P s \<Longrightarrow> body i x s = Inr s' \<Longrightarrow> P s'"
  shows "P s \<Longrightarrow> for_enumerate body i xs s = Inr s' \<Longrightarrow> P s'"
proof (induction xs arbitrary: i s)
  case Nil
  then show ?case by simp
next
  case (Cons x xs)
  from Cons.prems(2) obtain s1 where b: "body i x s = Inr s1"
    and r: "for_enumerate body (Suc i) xs s1 = Inr s'"
    by (auto split: sum.splits)
  from step [OF Cons.prems(1) b] have "P s1" .
  from Cons.IH [OF this r] show ?case .
qed

lemma andthenE:
  assumes "andthen m f = Inr y"
  obtains x where "m = Inr x" and "f x = Inr y"
  using assms by (cases m) (simp_all add: andthen_def)

lemma errors_report_error [simp]:
  "errors (report (report_error m s)) = errors (report s) @ [m]"
  by (simp add: report_error_def error_def)

lemma errors_report_warn [simp]:
  "errors (report (report_warn m s)) = errors (report s)"
  by (simp add: report_warn_def warn_def)

lemma errors_set_stat [simp]: "errors (set_stat k n r) = errors r"
  by (simp add: set_stat_def)

lemma errors_evidence_quote [simp]:
  "errors (validate_evidence_quote ev il r c i) = errors r"
  by (simp add: validate_evidence_quote_def warn_def Let_def split: option.splits)

lemma errors_fold_evidence [simp]:
  "errors (fold (\<lambda>ev r. validate_evidence_quote ev il r c i) evs r) = errors r"
  by (induction evs arbitrary: r) simp_all








lemma nce_error [simp]:
  "no_coverage_error (report_error m s) \<longleftrightarrow> no_coverage_error s \<and> \<not> is_coverage_error m"
  by (auto simp: no_coverage_error_def)

lemma nce_warn [simp]: "no_coverage_error (report_warn m s) \<longleftrightarrow> no_coverage_error s"
  by (simp add: no_coverage_error_def)
















lemma py_eq_JStr [simp]: "py_eq a (JStr x) \<longleftrightarrow> a = JStr x"
  by (cases a) (simp_all add: py_eq_def)











subsection \<open>A complete run in which a use case has no test case\<close>

lemmas model_defs =
  UseCase_of_def Policy_of_def TestCase_of_def DatasetExample_of_def
  RunManifest_of_def LLMInfo_of_def Evidence_of_def evidence_field_def
  str_field_def int_field_def float_field_def pattern_field_def literal_field_def
  dict_field_def str_list_field_def criteria_field_def metadata_field_def
  case_types_def policy_types_allowed_def formats_allowed_def construct_def

lemma use_case_json_ok:
  "construct (UseCase_of C) (use_case_json n) =
     Inr \<lparr>uc_id = ''uc_'' @ n, uc_case = ''support_bot'', uc_name = ''Order status'',
          uc_description = ''Where is my order'',
          uc_evidence = [\<lparr>input_file = ''doc.md'', line_start = 1, line_end = 1,
                           quote = ''FAQ''\<rparr>]\<rparr>"
  by (simp add: model_defs use_case_json_def evidence_json_def)

lemma use_case_step:
  "use_case_body C None i (use_case_json n) s =
     Inr (s\<lparr>use_case_ids := set_add (''uc_'' @ n) (use_case_ids s)\<rparr>)"
  by (simp add: use_case_body_def use_case_json_ok validate_evidence_quote_def)


lemma policy_step:
  "t \<in> set policy_types_allowed \<Longrightarrow>
   policy_body C None i (policy_json n t) s =
     Inr (s\<lparr>policy_ids := set_add (''pol_'' @ n) (policy_ids s),
            policy_types := set_add t (policy_types s)\<rparr>)"
  by (simp add: policy_body_def model_defs policy_json_def evidence_json_def
      validate_evidence_quote_def)

lemma test_case_step:
  "''uc_'' @ u \<in> set (use_case_ids s) \<Longrightarrow> ''pol_1'' \<in> set (policy_ids s) \<Longrightarrow>
   test_case_body i (test_case_json n u) s =
     Inr (s\<lparr>test_case_ids := set_add (''tc_'' @ n) (test_case_ids s),
            tc_per_uc := dict_incr (''uc_'' @ u) (tc_per_uc s)\<rparr>)"
  by (simp add: test_case_body_def model_defs test_case_json_def Let_def)

lemma example_step:
  "''uc_'' @ u \<in> set (use_case_ids s) \<Longrightarrow> ''tc_'' @ n \<in> set (test_case_ids s) \<Longrightarrow>
   ''pol_1'' \<in> set (policy_ids s) \<Longrightarrow> src \<noteq> [] \<Longrightarrow>
   dataset_body i (example_json n u src) s =
     Inr (s\<lparr>formats_seen := set_add ''single_turn_qa'' (formats_seen s),
            ex_per_tc := dict_incr (''tc_'' @ n) (ex_per_tc s),
            sources_seen := (if list_ex (\<lambda>y. y = JStr src) (sources_seen s)
                             then sources_seen s else sources_seen s @ [JStr src])\<rparr>)"
  by (simp add: dataset_body_def model_defs example_json_def Let_def dict_get_def
      dict_get_default_def sources_add_def referential_checks_def format_checks_def
      andthen_def)


lemma stage_manifest:
  "validate_manifest no_coercion fs_uncovered_use_case ''out'' [] None (init_vstate new_report) =
     Inr (None, \<lparr>report = \<lparr>errors = [], warnings = [], stats = Map.empty\<rparr>,
       use_case_ids = [],
       policy_ids = [],
       policy_types = [],
       test_case_ids = [],
       tc_per_uc = [],
       ex_per_tc = [],
       formats_seen = [], sources_seen = []\<rparr>)"
  by (simp add: validate_manifest_def fs_uncovered_use_case_def load_json_def path_join_def json_file_def andthen_def unwrap_artifact_def set_stat_def manifest_json_def model_defs
      read_input_lines_def init_vstate_def new_report_def no_coercion_def)

lemma stage_use_cases:
  "validate_use_cases no_coercion fs_uncovered_use_case ''out'' None
     \<lparr>report = \<lparr>errors = [], warnings = [], stats = Map.empty\<rparr>,
       use_case_ids = [],
       policy_ids = [],
       policy_types = [],
       test_case_ids = [],
       tc_per_uc = [],
       ex_per_tc = [],
       formats_seen = [], sources_seen = []\<rparr> =
   Inr \<lparr>report = \<lparr>errors = [], warnings = [], stats = [''use_cases'' \<mapsto> 5]\<rparr>,
       use_case_ids = [''uc_1'', ''uc_2'', ''uc_3'', ''uc_4'', ''uc_5''],
       policy_ids = [],
       policy_types = [],
       test_case_ids = [],
       tc_per_uc = [],
       ex_per_tc = [],
       formats_seen = [], sources_seen = []\<rparr>"
  by (simp add: validate_use_cases_def fs_uncovered_use_case_def load_json_def path_join_def json_file_def andthen_def unwrap_artifact_def set_stat_def use_case_step set_add_def eval_nat_numeral)

lemma stage_policies:
  "validate_policies no_coercion fs_uncovered_use_case ''out'' None
     \<lparr>report = \<lparr>errors = [], warnings = [], stats = [''use_cases'' \<mapsto> 5]\<rparr>,
       use_case_ids = [''uc_1'', ''uc_2'', ''uc_3'', ''uc_4'', ''uc_5''],
       policy_ids = [],
       policy_types = [],
       test_case_ids = [],
       tc_per_uc = [],
       ex_per_tc = [],
       formats_seen = [], sources_seen = []\<rparr> =
   Inr \<lparr>report = \<lparr>errors = [], warnings = [], stats = [''use_cases'' \<mapsto> 5, ''policies'' \<mapsto> 5]\<rparr>,
       use_case_ids = [''uc_1'', ''uc_2'', ''uc_3'', ''uc_4'', ''uc_5''],
       policy_ids = [''pol_1'', ''pol_2'', ''pol_3'', ''pol_4'', ''pol_5''],
       policy_types = [''must'', ''must_not'', ''escalate'', ''style'', ''format''],
       test_case_ids = [],
       tc_per_uc = [],
       ex_per_tc = [],
       formats_seen = [], sources_seen = []\<rparr>"
  by (simp add: validate_policies_def fs_uncovered_use_case_def load_json_def path_join_def json_file_def andthen_def unwrap_artifact_def set_stat_def policy_step set_add_def
      policy_types_allowed_def eval_nat_numeral)

lemma stage_test_cases:
  "validate_test_cases fs_uncovered_use_case ''out''
     \<lparr>report = \<lparr>errors = [], warnings = [], stats = [''use_cases'' \<mapsto> 5, ''policies'' \<mapsto> 5]\<rparr>,
       use_case_ids = [''uc_1'', ''uc_2'', ''uc_3'', ''uc_4'', ''uc_5''],
       policy_ids = [''pol_1'', ''pol_2'', ''pol_3'', ''pol_4'', ''pol_5''],
       policy_types = [''must'', ''must_not'', ''escalate'', ''style'', ''format''],
       test_case_ids = [],
       tc_per_uc = [],
       ex_per_tc = [],
       formats_seen = [], sources_seen = []\<rparr> =
   Inr \<lparr>report = \<lparr>errors = [], warnings = [], stats = [''use_cases'' \<mapsto> 5, ''policies'' \<mapsto> 5, ''test_cases'' \<mapsto> 12]\<rparr>,
       use_case_ids = [''uc_1'', ''uc_2'', ''uc_3'', ''uc_4'', ''uc_5''],
       policy_ids = [''pol_1'', ''pol_2'', ''pol_3'', ''pol_4'', ''pol_5''],
       policy_types = [''must'', ''must_not'', ''escalate'', ''style'', ''format''],
       test_case_ids = [''tc_1'', ''tc_2'', ''tc_3'', ''tc_4'', ''tc_5'', ''tc_6'', ''tc_7'', ''tc_8'', ''tc_9'', ''tc_10'', ''tc_11'', ''tc_12''],
       tc_per_uc = [(''uc_1'', 3), (''uc_2'', 3), (''uc_3'', 3), (''uc_4'', 3)],
       ex_per_tc = [],
       formats_seen = [], sources_seen = []\<rparr>"
  by (simp add: validate_test_cases_def fs_uncovered_use_case_def load_json_def path_join_def json_file_def andthen_def unwrap_artifact_def set_stat_def test_case_step set_add_def
      check_tc_per_uc_def eval_nat_numeral)

lemma stage_dataset:
  "validate_dataset fs_uncovered_use_case ''out''
     \<lparr>report = \<lparr>errors = [], warnings = [], stats = [''use_cases'' \<mapsto> 5, ''policies'' \<mapsto> 5, ''test_cases'' \<mapsto> 12]\<rparr>,
       use_case_ids = [''uc_1'', ''uc_2'', ''uc_3'', ''uc_4'', ''uc_5''],
       policy_ids = [''pol_1'', ''pol_2'', ''pol_3'', ''pol_4'', ''pol_5''],
       policy_types = [''must'', ''must_not'', ''escalate'', ''style'', ''format''],
       test_case_ids = [''tc_1'', ''tc_2'', ''tc_3'', ''tc_4'', ''tc_5'', ''tc_6'', ''tc_7'', ''tc_8'', ''tc_9'', ''tc_10'', ''tc_11'', ''tc_12''],
       tc_per_uc = [(''uc_1'', 3), (''uc_2'', 3), (''uc_3'', 3), (''uc_4'', 3)],
       ex_per_tc = [],
       formats_seen = [], sources_seen = []\<rparr> =
   Inr (JList [example_json ''1'' ''1'' ''tickets'', example_json ''2'' ''1'' ''faq_paraphrase'',
                example_json ''3'' ''1'' ''corner'', example_json ''4'' ''2'' ''tickets'',
                example_json ''5'' ''2'' ''faq_paraphrase'', example_json ''6'' ''2'' ''corner'',
                example_json ''7'' ''3'' ''tickets'', example_json ''8'' ''3'' ''faq_paraphrase'',
                example_json ''9'' ''3'' ''corner'', example_json ''10'' ''4'' ''tickets'',
                example_json ''11'' ''4'' ''faq_paraphrase'',
                example_json ''12'' ''4'' ''corner''],
        \<lparr>report = \<lparr>errors = [], warnings = [], stats = [''use_cases'' \<mapsto> 5, ''policies'' \<mapsto> 5, ''test_cases'' \<mapsto> 12,
                ''examples'' \<mapsto> 12]\<rparr>,
       use_case_ids = [''uc_1'', ''uc_2'', ''uc_3'', ''uc_4'', ''uc_5''],
       policy_ids = [''pol_1'', ''pol_2'', ''pol_3'', ''pol_4'', ''pol_5''],
       policy_types = [''must'', ''must_not'', ''escalate'', ''style'', ''format''],
       test_case_ids = [''tc_1'', ''tc_2'', ''tc_3'', ''tc_4'', ''tc_5'', ''tc_6'', ''tc_7'', ''tc_8'', ''tc_9'', ''tc_10'', ''tc_11'', ''tc_12''],
       tc_per_uc = [(''uc_1'', 3), (''uc_2'', 3), (''uc_3'', 3), (''uc_4'', 3)],
       ex_per_tc = [(''tc_1'', 1), (''tc_2'', 1), (''tc_3'', 1), (''tc_4'', 1), (''tc_5'', 1), (''tc_6'', 1), (''tc_7'', 1), (''tc_8'', 1), (''tc_9'', 1), (''tc_10'', 1), (''tc_11'', 1), (''tc_12'', 1)],
       formats_seen = [''single_turn_qa''], sources_seen = [JStr ''tickets'', JStr ''faq_paraphrase'', JStr ''corner'']\<rparr>)"
  by (simp add: validate_dataset_def fs_uncovered_use_case_def load_json_def path_join_def json_file_def andthen_def unwrap_artifact_def set_stat_def example_step set_add_def eval_nat_numeral)


lemma stage_coverage:
  "coverage_checks (JList [example_json ''1'' ''1'' ''tickets'', example_json ''2'' ''1'' ''faq_paraphrase'',
                example_json ''3'' ''1'' ''corner'', example_json ''4'' ''2'' ''tickets'',
                example_json ''5'' ''2'' ''faq_paraphrase'', example_json ''6'' ''2'' ''corner'',
                example_json ''7'' ''3'' ''tickets'', example_json ''8'' ''3'' ''faq_paraphrase'',
                example_json ''9'' ''3'' ''corner'', example_json ''10'' ''4'' ''tickets'',
                example_json ''11'' ''4'' ''faq_paraphrase'',
                example_json ''12'' ''4'' ''corner''])
     \<lparr>report = \<lparr>errors = [], warnings = [], stats = [''use_cases'' \<mapsto> 5, ''policies'' \<mapsto> 5, ''test_cases'' \<mapsto> 12,
                ''examples'' \<mapsto> 12]\<rparr>,
       use_case_ids = [''uc_1'', ''uc_2'', ''uc_3'', ''uc_4'', ''uc_5''],
       policy_ids = [''pol_1'', ''pol_2'', ''pol_3'', ''pol_4'', ''pol_5''],
       policy_types = [''must'', ''must_not'', ''escalate'', ''style'', ''format''],
       test_case_ids = [''tc_1'', ''tc_2'', ''tc_3'', ''tc_4'', ''tc_5'', ''tc_6'', ''tc_7'', ''tc_8'', ''tc_9'', ''tc_10'', ''tc_11'', ''tc_12''],
       tc_per_uc = [(''uc_1'', 3), (''uc_2'', 3), (''uc_3'', 3), (''uc_4'', 3)],
       ex_per_tc = [(''tc_1'', 1), (''tc_2'', 1), (''tc_3'', 1), (''tc_4'', 1), (''tc_5'', 1), (''tc_6'', 1), (''tc_7'', 1), (''tc_8'', 1), (''tc_9'', 1), (''tc_10'', 1), (''tc_11'', 1), (''tc_12'', 1)],
       formats_seen = [''single_turn_qa''], sources_seen = [JStr ''tickets'', JStr ''faq_paraphrase'', JStr ''corner'']\<rparr> =
   Inr \<lparr>report = \<lparr>errors = [], warnings = [], stats = [''use_cases'' \<mapsto> 5, ''policies'' \<mapsto> 5, ''test_cases'' \<mapsto> 12,
                ''examples'' \<mapsto> 12, ''formats'' \<mapsto> 1, ''sources'' \<mapsto> 3]\<rparr>,
       use_case_ids = [''uc_1'', ''uc_2'', ''uc_3'', ''uc_4'', ''uc_5''],
       policy_ids = [''pol_1'', ''pol_2'', ''pol_3'', ''pol_4'', ''pol_5''],
       policy_types = [''must'', ''must_not'', ''escalate'', ''style'', ''format''],
       test_case_ids = [''tc_1'', ''tc_2'', ''tc_3'', ''tc_4'', ''tc_5'', ''tc_6'', ''tc_7'', ''tc_8'', ''tc_9'', ''tc_10'', ''tc_11'', ''tc_12''],
       tc_per_uc = [(''uc_1'', 3), (''uc_2'', 3), (''uc_3'', 3), (''uc_4'', 3)],
       ex_per_tc = [(''tc_1'', 1), (''tc_2'', 1), (''tc_3'', 1), (''tc_4'', 1), (''tc_5'', 1), (''tc_6'', 1), (''tc_7'', 1), (''tc_8'', 1), (''tc_9'', 1), (''tc_10'', 1), (''tc_11'', 1), (''tc_12'', 1)],
       formats_seen = [''single_turn_qa''], sources_seen = [JStr ''tickets'', JStr ''faq_paraphrase'', JStr ''corner'']\<rparr>"
  by (simp add: coverage_checks_def check_examples_per_tc_def first_case_type_def
      case_coverage_def andthen_def set_stat_def example_json_def dict_get_def
      print_sorted_def eval_nat_numeral)

lemma required_present:
  "\<not> (\<exists>f \<in> set required_files. fs_uncovered_use_case (path_join ''out'' f) = None)"
  by (simp add: required_files_def fs_uncovered_use_case_def path_join_def)

text \<open>
  C1 at the complete run of the concrete inputs: the artifact holds the use case \<open>uc_5\<close>
  (it is among the ids collected by \<open>stage_use_cases\<close>), no test case names it (the
  counters of \<open>stage_test_cases\<close> have no entry for it), and the report has no error
  at all: the floor of three test cases is checked for the use cases that occur in a
  test case only.
\<close>

theorem uncovered_use_case_passes:
  "validate no_coercion fs_uncovered_use_case ''out'' [] =
     Inr \<lparr>errors = [], warnings = [],
          stats = [''use_cases'' \<mapsto> 5, ''policies'' \<mapsto> 5, ''test_cases'' \<mapsto> 12,
                   ''examples'' \<mapsto> 12, ''formats'' \<mapsto> 1, ''sources'' \<mapsto> 3]\<rparr>"
proof -
  have "check_artifacts no_coercion fs_uncovered_use_case ''out'' [] new_report =
     Inr \<lparr>errors = [], warnings = [],
          stats = [''use_cases'' \<mapsto> 5, ''policies'' \<mapsto> 5, ''test_cases'' \<mapsto> 12,
                   ''examples'' \<mapsto> 12, ''formats'' \<mapsto> 1, ''sources'' \<mapsto> 3]\<rparr>"
    by (simp add: check_artifacts_def stage_manifest stage_use_cases stage_policies
        stage_test_cases stage_dataset stage_coverage andthen_def)
  with required_present show ?thesis
    by (simp only: validate_cases if_False)
qed



subsection \<open>The shape of a single-utterance example\<close>

lemma warnings_report_error [simp]:
  "warnings (report (report_error m s)) = warnings (report s)"
  by (simp add: report_error_def error_def)

lemma warnings_report_warn [simp]:
  "warnings (report (report_warn m s)) = warnings (report s) @ [m]"
  by (simp add: report_warn_def warn_def)








subsection \<open>The line range of validated evidence\<close>

lemma py_min_num:
  assumes "py_min a b = Inr c"
  shows "\<exists>x y. num_of a = Some x \<and> num_of b = Some y \<and> num_of c = Some (min x y)"
proof -
  from assms obtain x y where xy: "num_of a = Some x" "num_of b = Some y"
    and c: "c = (if y < x then b else a)"
    by (auto simp: py_min_def py_lt_def andthen_def split: option.splits)
  from xy c have "num_of c = Some (min x y)" by (simp add: min_def)
  with xy show ?thesis by blast
qed

lemma py_max_num:
  assumes "py_max a b = Inr c"
  shows "\<exists>x y. num_of a = Some x \<and> num_of b = Some y \<and> num_of c = Some (max x y)"
proof -
  from assms obtain x y where xy: "num_of a = Some x" "num_of b = Some y"
    and c: "c = (if x < y then b else a)"
    by (auto simp: py_max_def py_lt_def andthen_def split: option.splits)
  from xy c have "num_of c = Some (max x y)" by (simp add: max_def)
  with xy show ?thesis by blast
qed

lemma slice_index_num: "slice_index j = Inr k \<Longrightarrow> num_of j = Some (of_int k)"
  by (cases j) auto

lemma clamp_bounds:
  fixes ls b :: int and x y :: rat
  assumes "of_int ls = max 1 (min x (of_int n))"
      and "of_int b = max (of_int ls :: rat) (min y (of_int n))"
  shows "1 \<le> ls \<and> ls \<le> b \<and> b \<le> max 1 n"
proof -
  have "(1::rat) \<le> of_int ls" using assms(1) by simp
  then have 1: "1 \<le> ls" by linarith
  have "(of_int ls :: rat) \<le> of_int b" using assms(2) by simp
  then have 2: "ls \<le> b" by linarith
  have "(of_int ls :: rat) \<le> max 1 (of_int n)" using assms(1) by (simp add: max_def min_def split: if_splits)
  then have "(of_int b :: rat) \<le> max 1 (of_int n)"
    using assms(2) by (simp add: max_def min_def split: if_splits)
  then have "(of_int b :: rat) \<le> of_int (max 1 n)" by (simp add: max_def split: if_splits)
  then have 3: "b \<le> max 1 n" by linarith
  from 1 2 3 show ?thesis by simp
qed

lemma entry_bounds:
  assumes "validate_evidence_entry raw_lines f ev = Inr e"
  shows "1 \<le> line_start e \<and> line_start e \<le> line_end e
         \<and> line_end e \<le> max 1 (int (length raw_lines))"
proof -
  from assms obtain ls0 le0 m1 ls' m2 le' b ls where
    m1: "py_min ls0 (JInt (int (length raw_lines))) = Inr m1" and
    ls': "py_max (JInt 1) m1 = Inr ls'" and
    m2: "py_min le0 (JInt (int (length raw_lines))) = Inr m2" and
    le': "py_max ls' m2 = Inr le'" and
    b: "slice_index le' = Inr b" and
    ls: "slice_index ls' = Inr ls" and
    e: "line_start e = ls" "line_end e = b"
    unfolding validate_evidence_entry_def Let_def
    by (elim andthenE) auto
  from py_min_num [OF m1] obtain x where x: "num_of m1 = Some (min x (of_int (int (length raw_lines))))"
    by auto
  from py_max_num [OF ls'] x have "num_of ls' = Some (max 1 (min x (of_int (int (length raw_lines)))))"
    by auto
  with slice_index_num [OF ls]
  have A: "of_int ls = max 1 (min x (of_int (int (length raw_lines))))" by simp
  from py_min_num [OF m2] obtain y where y: "num_of m2 = Some (min y (of_int (int (length raw_lines))))"
    by auto
  from py_max_num [OF le'] y slice_index_num [OF ls]
  have "num_of le' = Some (max (of_int ls) (min y (of_int (int (length raw_lines)))))"
    by auto
  with slice_index_num [OF b]
  have B: "of_int b = max (of_int ls :: rat) (min y (of_int (int (length raw_lines))))" by simp
  from clamp_bounds [OF A B] e show ?thesis by simp
qed

lemma for_each_all:
  assumes "\<And>x y. f x = Inr y \<Longrightarrow> P y"
  shows "for_each f xs = Inr ys \<Longrightarrow> \<forall>y \<in> set ys. P y"
proof (induction xs arbitrary: ys)
  case Nil
  then show ?case by simp
next
  case (Cons x xs)
  from Cons.prems obtain y ys' where y: "f x = Inr y" and r: "for_each f xs = Inr ys'"
    and ys: "ys = y # ys'"
    by (auto split: sum.splits)
  from assms [OF y] Cons.IH [OF r] ys show ?case by simp
qed

text \<open>
  C4, as the code has it: every Evidence record that \<^verbatim>\<open>_validate_evidence\<close> returns has
  \<open>1 \<le> line_start \<le> line_end \<le> max 1 n\<close> for the number \<open>n\<close> of lines of the input
  document, so \<open>line_end \<le> n\<close> whenever the document has a line.
\<close>

theorem validated_evidence_bounds:
  assumes "validate_evidence evidence_list raw_lines f = Inr out"
  shows "\<forall>e \<in> set out. 1 \<le> line_start e \<and> line_start e \<le> line_end e
           \<and> line_end e \<le> max 1 (int (length raw_lines))
           \<and> (raw_lines \<noteq> [] \<longrightarrow> line_end e \<le> int (length raw_lines))"
proof -
  from assms obtain items where
    "for_each (validate_evidence_entry raw_lines f) items = Inr out"
    by (auto simp: validate_evidence_def elim!: andthenE)
  from for_each_all [of "validate_evidence_entry raw_lines f"
      "\<lambda>e. 1 \<le> line_start e \<and> line_start e \<le> line_end e
           \<and> line_end e \<le> max 1 (int (length raw_lines))", OF entry_bounds this]
  show ?thesis by (cases raw_lines) auto
qed

theorem validated_evidence_bounds_witness:
  "validate_evidence evidence_out_of_range [''a'', ''b  '', ''c''] ''doc.md'' =
     Inr [\<lparr>input_file = ''doc.md'', line_start = 1, line_end = 3, quote = ''b''\<rparr>]
   \<and> (1::int) \<le> 1 \<and> (1::int) \<le> 3 \<and> (3::int) \<le> int (length [''a'', ''b  '', ''c''])"
proof -
  have ev: "validate_evidence evidence_out_of_range [''a'', ''b  '', ''c''] ''doc.md'' =
     Inr [\<lparr>input_file = ''doc.md'', line_start = 1, line_end = 3, quote = ''b''\<rparr>]"
    by (simp add: validate_evidence_def validate_evidence_entry_def evidence_out_of_range_def
        andthen_def dict_get_default_def py_min_def py_max_def py_lt_def py_slice_def
        slice_bound_def strip_def is_space_def Let_def)
  from validated_evidence_bounds [OF ev] ev show ?thesis by simp
qed


text \<open>
  The claim as the specification words it fails for a document without lines: the
  clamping gives the range from line 1 to line 1, beyond the end of the document.
\<close>

theorem empty_document_counterexample:
  "validate_evidence evidence_line_one [] ''doc.md'' =
     Inr [\<lparr>input_file = ''doc.md'', line_start = 1, line_end = 1, quote = ''N/A''\<rparr>]
   \<and> \<not> (1::int) \<le> int (length ([] :: string list))"
  by (simp add: validate_evidence_def validate_evidence_entry_def evidence_line_one_def
      andthen_def dict_get_default_def py_min_def py_max_def py_lt_def py_slice_def
      slice_bound_def strip_def is_space_def Let_def)



subsection \<open>The policy ids of a stored test case\<close>

lemma those_as_str: "those (map as_str xs) = Some ys \<Longrightarrow> xs = map JStr ys"
proof (induction xs arbitrary: ys)
  case Nil
  then show ?case by simp
next
  case (Cons x xs)
  then show ?case by (cases x) (auto split: option.splits)
qed

lemma TestCase_of_policy_ids:
  "TestCase_of d = Some tc \<Longrightarrow> map_of d ''policy_ids'' = Some (JList pids)
   \<Longrightarrow> pids = map JStr (tc_policy_ids tc)"
  by (auto simp: TestCase_of_def str_list_field_def split: option.splits dest: those_as_str)

lemma list_ex_known [simp]: "list_ex (\<lambda>k. py_eq p (JStr k)) known \<longleftrightarrow> p \<in> JStr ` set known"
  by (auto simp: list_ex_iff)

lemma construct_JObj: "construct M (JObj d) = Inr v \<longleftrightarrow> M d = Some v"
  by (simp add: construct_def split: option.splits)

lemma make_test_case_stored:
  assumes "make_test_case case_type known uc k tc_data = Inr tc"
  shows "\<exists>pids0 items. py_get_default tc_data ''policy_ids'' (JList []) = Inr pids0
           \<and> py_iter pids0 = Inr items
           \<and> map JStr (tc_policy_ids tc) =
               (if kept_policy_ids known items = [] then map JStr (take 2 known)
                else kept_policy_ids known items)"
proof -
  from assms obtain params where
    1: "andthen (py_get_default tc_data ''policy_ids'' (JList [])) (\<lambda>pids0.
     andthen (py_iter pids0) (\<lambda>items.
        construct TestCase_of
            (JObj [(''id'', JStr (''tc_'' @ decimal k)), (''case'', JStr case_type),
                   (''use_case_id'', JStr (uc_id uc)), (''parameters'', params),
                   (''policy_ids'', JList (if kept_policy_ids known items = []
                        then map JStr (take 2 known) else kept_policy_ids known items))]))) = Inr tc"
    unfolding make_test_case_def Let_def kept_policy_ids_def list_ex_known
    by (rule andthenE)
  then obtain pids0 where
    p: "py_get_default tc_data ''policy_ids'' (JList []) = Inr pids0" and
    2: "andthen (py_iter pids0) (\<lambda>items.
        construct TestCase_of
            (JObj [(''id'', JStr (''tc_'' @ decimal k)), (''case'', JStr case_type),
                   (''use_case_id'', JStr (uc_id uc)), (''parameters'', params),
                   (''policy_ids'', JList (if kept_policy_ids known items = []
                        then map JStr (take 2 known) else kept_policy_ids known items))])) = Inr tc"
    by (rule andthenE)
  from 2 obtain items where
    i: "py_iter pids0 = Inr items" and
    c: "construct TestCase_of
            (JObj [(''id'', JStr (''tc_'' @ decimal k)), (''case'', JStr case_type),
                   (''use_case_id'', JStr (uc_id uc)), (''parameters'', params),
                   (''policy_ids'', JList (if kept_policy_ids known items = []
                        then map JStr (take 2 known) else kept_policy_ids known items))]) = Inr tc"
    by (rule andthenE)
  from c have "TestCase_of
            [(''id'', JStr (''tc_'' @ decimal k)), (''case'', JStr case_type),
                   (''use_case_id'', JStr (uc_id uc)), (''parameters'', params),
                   (''policy_ids'', JList (if kept_policy_ids known items = []
                        then map JStr (take 2 known) else kept_policy_ids known items))] = Some tc"
    by (simp only: construct_JObj)
  from TestCase_of_policy_ids [OF this, of "if kept_policy_ids known items = []
                        then map JStr (take 2 known) else kept_policy_ids known items"]
  have "map JStr (tc_policy_ids tc) = (if kept_policy_ids known items = []
                        then map JStr (take 2 known) else kept_policy_ids known items)"
    by simp
  with p i show ?thesis by blast
qed


lemma make_test_case_policy_ids:
  assumes "make_test_case case_type known uc k tc_data = Inr tc"
  shows "set (tc_policy_ids tc) \<subseteq> set known \<and> (known \<noteq> [] \<longrightarrow> tc_policy_ids tc \<noteq> [])"
proof -
  from make_test_case_stored [OF assms] obtain items where
    m: "map JStr (tc_policy_ids tc) =
               (if kept_policy_ids known items = [] then map JStr (take 2 known)
                else kept_policy_ids known items)" by blast
  have inj: "inj JStr" by (simp add: inj_on_def)
  show ?thesis
  proof (cases "kept_policy_ids known items = []")
    case True
    with m have "map JStr (tc_policy_ids tc) = map JStr (take 2 known)" by simp
    then have t: "tc_policy_ids tc = take 2 known"
      by (simp only: inj_map_eq_map [OF inj])
    have "set (take 2 known) \<subseteq> set known" by (rule set_take_subset)
    moreover have "known \<noteq> [] \<longrightarrow> take 2 known \<noteq> []" by (cases known) simp_all
    ultimately show ?thesis by (simp only: t)
  next
    case False
    with m have k: "map JStr (tc_policy_ids tc) = kept_policy_ids known items" by simp
    have "set (kept_policy_ids known items) \<subseteq> JStr ` set known"
      by (auto simp: kept_policy_ids_def)
    with k have "JStr ` set (tc_policy_ids tc) \<subseteq> JStr ` set known"
      by (metis list.set_map)
    then have 1: "set (tc_policy_ids tc) \<subseteq> set known" by auto
    from k False have 2: "tc_policy_ids tc \<noteq> []" by auto
    from 1 2 show ?thesis by simp
  qed
qed


lemma append_test_case_inv:
  assumes "\<forall>tc \<in> set (fst acc). P tc"
      and "\<And>k d tc. make_test_case case_type known uc k d = Inr tc \<Longrightarrow> P tc"
      and "append_test_case case_type known uc i d acc = Inr acc'"
  shows "\<forall>tc \<in> set (fst acc'). P tc"
  using assms
  by (cases acc) (auto simp: append_test_case_def elim!: andthenE)

lemma test_cases_loop_inv:
  assumes "\<And>uc k d tc. make_test_case case_type known uc k d = Inr tc \<Longrightarrow> P tc"
  shows "\<forall>tc \<in> set (fst acc). P tc \<Longrightarrow>
         test_cases_loop config gw case_type axes known ucs acc calls = (Inr tcs, calls')
         \<Longrightarrow> \<forall>tc \<in> set tcs. P tc"
proof (induction ucs arbitrary: acc calls)
  case Nil
  then show ?case by simp
next
  case (Cons uc ucs)
  let ?p = "TestCasesPrompt config uc case_type axes known"
  from Cons.prems(2) obtain items acc' where
    "for_enumerate (append_test_case case_type known uc) 0 items acc = Inr acc'" and
    r: "test_cases_loop config gw case_type axes known ucs acc' (calls @ [?p]) = (Inr tcs, calls')"
    by (auto simp: Let_def split: sum.splits elim!: andthenE)
  from for_enumerate_invariant [of "\<lambda>a. \<forall>tc \<in> set (fst a). P tc"
      "append_test_case case_type known uc", OF _ Cons.prems(1) this(1)]
    append_test_case_inv [of _ P case_type known uc] assms
  have "\<forall>tc \<in> set (fst acc'). P tc" by blast
  from Cons.IH [OF this r] show ?case .
qed

lemmas test_case_stage_defs =
  generate_test_cases_def VARIATION_AXES_def Let_def config_default_def use_case_1_def
  policy_n_def gateway_no_policy_ids_def unwrap_result_def dict_get_default_def
  py_slice_def slice_bound_def append_test_case_def make_test_case_def andthen_def
  construct_def TestCase_of_def str_field_def pattern_field_def literal_field_def
  dict_field_def str_list_field_def case_types_def decimal.simps

lemma fallback_run:
  "fst (generate_test_cases config_default gateway_no_policy_ids [use_case_1]
          [policy_n ''1'', policy_n ''2'', policy_n ''3'']) =
     Inr [\<lparr>tc_id = ''tc_1'', tc_case = ''support_bot'', tc_use_case_id = ''uc_1'',
            tc_parameters = [(''tone'', JStr ''polite'')],
            tc_policy_ids = [''pol_1'', ''pol_2'']\<rparr>]"
  by (simp add: test_case_stage_defs)

text \<open>
  C5, as the code has it: the policy ids of a stored test case are the ids of the
  gateway's record that are known, in their order, or the first two known ids when
  none is; so they are all known, and there is at least one when at least one policy is
  known. The run of the witness is the scenario of the specification: a record with
  no policy ids against the policies \<open>pol_1\<close>, \<open>pol_2\<close>, \<open>pol_3\<close> is stored with
  \<open>pol_1\<close> and \<open>pol_2\<close>.
\<close>

theorem stored_policy_ids:
  "(\<forall>tc. make_test_case case_type known uc k tc_data = Inr tc \<longrightarrow>
      (\<exists>pids0 items. py_get_default tc_data ''policy_ids'' (JList []) = Inr pids0
           \<and> py_iter pids0 = Inr items
           \<and> map JStr (tc_policy_ids tc) =
               (if kept_policy_ids known items = [] then map JStr (take 2 known)
                else kept_policy_ids known items)))
   \<and> (\<forall>tcs calls. generate_test_cases config gw use_cases policies = (Inr tcs, calls) \<longrightarrow>
        (\<forall>tc \<in> set tcs. set (tc_policy_ids tc) \<subseteq> pol_id ` set policies
                          \<and> (policies \<noteq> [] \<longrightarrow> tc_policy_ids tc \<noteq> [])))"
proof (intro conjI allI impI)
  fix tc assume "make_test_case case_type known uc k tc_data = Inr tc"
  then show "\<exists>pids0 items. py_get_default tc_data ''policy_ids'' (JList []) = Inr pids0
           \<and> py_iter pids0 = Inr items
           \<and> map JStr (tc_policy_ids tc) =
               (if kept_policy_ids known items = [] then map JStr (take 2 known)
                else kept_policy_ids known items)"
    by (rule make_test_case_stored)
next
  fix tcs calls
  assume g: "generate_test_cases config gw use_cases policies = (Inr tcs, calls)"
  let ?known = "map pol_id policies"
  let ?P = "\<lambda>tc. set (tc_policy_ids tc) \<subseteq> set ?known \<and> (?known \<noteq> [] \<longrightarrow> tc_policy_ids tc \<noteq> [])"
  from g obtain ct axes where
    l: "test_cases_loop config gw ct axes ?known use_cases ([], 1) [] = (Inr tcs, calls)"
    by (simp add: generate_test_cases_def Let_def)
  have "\<forall>tc \<in> set tcs. ?P tc"
    by (rule test_cases_loop_inv [of ct ?known ?P "([], 1)", OF make_test_case_policy_ids _ l])
       simp_all
  then show "\<forall>tc \<in> set tcs. set (tc_policy_ids tc) \<subseteq> pol_id ` set policies
                          \<and> (policies \<noteq> [] \<longrightarrow> tc_policy_ids tc \<noteq> [])"
    by simp
qed


theorem stored_policy_ids_witness:
  "fst (generate_test_cases config_default gateway_no_policy_ids [use_case_1]
          [policy_n ''1'', policy_n ''2'', policy_n ''3'']) =
     Inr [\<lparr>tc_id = ''tc_1'', tc_case = ''support_bot'', tc_use_case_id = ''uc_1'',
            tc_parameters = [(''tone'', JStr ''polite'')],
            tc_policy_ids = [''pol_1'', ''pol_2'']\<rparr>]
   \<and> [policy_n ''1'', policy_n ''2'', policy_n ''3''] \<noteq> []
   \<and> set [''pol_1'', ''pol_2''] \<subseteq> pol_id ` set [policy_n ''1'', policy_n ''2'', policy_n ''3'']
   \<and> [''pol_1'', ''pol_2''] \<noteq> ([] :: string list)"
proof -
  obtain calls where
    g: "generate_test_cases config_default gateway_no_policy_ids [use_case_1]
          [policy_n ''1'', policy_n ''2'', policy_n ''3''] =
        (Inr [\<lparr>tc_id = ''tc_1'', tc_case = ''support_bot'', tc_use_case_id = ''uc_1'',
            tc_parameters = [(''tone'', JStr ''polite'')],
            tc_policy_ids = [''pol_1'', ''pol_2'']\<rparr>], calls)"
    using fallback_run by (metis prod.collapse)
  from stored_policy_ids [of "''support_bot''" "[]" use_case_1 0 JNull config_default
      gateway_no_policy_ids "[use_case_1]" "[policy_n ''1'', policy_n ''2'', policy_n ''3'']"] g
  have "set [''pol_1'', ''pol_2''] \<subseteq> pol_id ` set [policy_n ''1'', policy_n ''2'', policy_n ''3'']"
    by fastforce
  with fallback_run show ?thesis by simp
qed


text \<open>
  The claim as the specification words it fails when no policy is known: the first two
  of no ids are no ids, and the test case is stored without any.
\<close>

theorem no_policies_counterexample:
  "fst (generate_test_cases config_default gateway_no_policy_ids [use_case_1] []) =
     Inr [\<lparr>tc_id = ''tc_1'', tc_case = ''support_bot'', tc_use_case_id = ''uc_1'',
            tc_parameters = [(''tone'', JStr ''polite'')], tc_policy_ids = []\<rparr>]"
  by (simp add: test_case_stage_defs)


end
